theory Spec2Isabelle
  imports Complex_Main
begin

section \<open>Python and numpy values\<close>

text \<open>
  The exceptions of the Python functions embedded below. A function that can raise
  returns \<open>py_error + 'a\<close>, with \<open>Inl\<close> for the exception. \<open>IndentationError\<close> is what
  compiling a module raises when a \<open>def\<close> has no body.
\<close>

datatype py_error =
  ValueError | TypeError | FileNotFoundError | UnboundLocalError | OverflowError
  | IndentationError

text \<open>
  A Python or numpy float (binary64): a finite number, carried as the real it denotes,
  or one of the IEEE special values. The sign of zero is not modelled.
\<close>

datatype npfloat = Fin real | PInf | NInf | NaN

text \<open>Rounding a real to an integer, half to even.\<close>

definition round_half_even :: "real \<Rightarrow> int" where
  "round_half_even z =
     (let f = \<lfloor>z\<rfloor>; d = z - of_int f in
      if d < 1 / 2 then f else if 1 / 2 < d then f + 1 else if even f then f else f + 1)"

text \<open>
  Rounding a real to binary64, to nearest and half to even: with \<open>e\<close> the binary
  exponent of \<open>x\<close> (at least \<open>-1022\<close>, below which the format is subnormal), the result
  is the multiple of \<open>2 powi (e - 52)\<close> nearest to \<open>x\<close>. \<open>to_float\<close> adds the overflow
  to an infinity. Every arithmetic operation below rounds its exact result this way, as
  IEEE arithmetic does.
\<close>

definition fl_exponent :: "real \<Rightarrow> int" where
  "fl_exponent x = max \<lfloor>log 2 \<bar>x\<bar>\<rfloor> (- 1022)"

definition fl :: "real \<Rightarrow> real" where
  "fl x =
     (if x = 0 then 0
      else of_int (round_half_even (x / 2 powi (fl_exponent x - 52)))
           * 2 powi (fl_exponent x - 52))"

definition to_float :: "real \<Rightarrow> npfloat" where
  "to_float x =
     (if 2 ^ 1024 \<le> fl x then PInf else if fl x \<le> - (2 ^ 1024) then NInf else Fin (fl x))"

fun np_neg :: "npfloat \<Rightarrow> npfloat" where
  "np_neg (Fin a) = Fin (- a)"
| "np_neg PInf = NInf"
| "np_neg NInf = PInf"
| "np_neg NaN = NaN"

fun np_add :: "npfloat \<Rightarrow> npfloat \<Rightarrow> npfloat" where
  "np_add (Fin a) (Fin b) = to_float (a + b)"
| "np_add NaN _ = NaN"
| "np_add _ NaN = NaN"
| "np_add PInf NInf = NaN"
| "np_add NInf PInf = NaN"
| "np_add PInf _ = PInf"
| "np_add _ PInf = PInf"
| "np_add NInf _ = NInf"
| "np_add _ NInf = NInf"

definition np_sub :: "npfloat \<Rightarrow> npfloat \<Rightarrow> npfloat" where
  "np_sub a b = np_add a (np_neg b)"

text \<open>An infinity times a finite number: \<open>inf * 0\<close> is \<open>nan\<close>.\<close>

definition inf_times :: "real \<Rightarrow> npfloat" where
  "inf_times a = (if a = 0 then NaN else if 0 < a then PInf else NInf)"

fun np_mul :: "npfloat \<Rightarrow> npfloat \<Rightarrow> npfloat" where
  "np_mul (Fin a) (Fin b) = to_float (a * b)"
| "np_mul NaN _ = NaN"
| "np_mul _ NaN = NaN"
| "np_mul PInf (Fin b) = inf_times b"
| "np_mul (Fin a) PInf = inf_times a"
| "np_mul NInf (Fin b) = np_neg (inf_times b)"
| "np_mul (Fin a) NInf = np_neg (inf_times a)"
| "np_mul PInf PInf = PInf"
| "np_mul NInf NInf = PInf"
| "np_mul PInf NInf = NInf"
| "np_mul NInf PInf = NInf"

text \<open>
  Division as numpy and pandas do it: \<open>0 / 0\<close> is \<open>nan\<close>, a non-zero number over zero
  is an infinity of its sign, and nothing raises.
\<close>

fun np_div :: "npfloat \<Rightarrow> npfloat \<Rightarrow> npfloat" where
  "np_div (Fin a) (Fin b) =
     (if b = 0 then (if a = 0 then NaN else if 0 < a then PInf else NInf)
      else to_float (a / b))"
| "np_div NaN _ = NaN"
| "np_div _ NaN = NaN"
| "np_div (Fin a) PInf = Fin 0"
| "np_div (Fin a) NInf = Fin 0"
| "np_div PInf (Fin b) = (if 0 \<le> b then PInf else NInf)"
| "np_div NInf (Fin b) = (if 0 \<le> b then NInf else PInf)"
| "np_div PInf PInf = NaN"
| "np_div PInf NInf = NaN"
| "np_div NInf PInf = NaN"
| "np_div NInf NInf = NaN"

fun np_abs :: "npfloat \<Rightarrow> npfloat" where
  "np_abs (Fin a) = Fin \<bar>a\<bar>"
| "np_abs PInf = PInf"
| "np_abs NInf = PInf"
| "np_abs NaN = NaN"

fun np_sqrt :: "npfloat \<Rightarrow> npfloat" where
  "np_sqrt (Fin a) = (if a < 0 then NaN else to_float (sqrt a))"
| "np_sqrt PInf = PInf"
| "np_sqrt NInf = NaN"
| "np_sqrt NaN = NaN"

text \<open>\<open>np.rint\<close>: the nearest integer, half to even.\<close>

fun np_rint :: "npfloat \<Rightarrow> npfloat" where
  "np_rint (Fin a) = Fin (of_int (round_half_even a))"
| "np_rint PInf = PInf"
| "np_rint NInf = NInf"
| "np_rint NaN = NaN"

text \<open>
  \<open>np.round(v, decimals)\<close>, which is also what \<open>round(s, decimals)\<close> calls on a pandas
  Series: \<open>rint\<close> alone when \<open>decimals\<close> is 0; otherwise scale by the power of ten,
  \<open>rint\<close>, scale back, each step in binary64.
\<close>

definition np_round :: "npfloat \<Rightarrow> int \<Rightarrow> npfloat" where
  "np_round v decimals =
     (if decimals = 0 then np_rint v
      else if 0 < decimals
      then np_div (np_rint (np_mul v (to_float (10 ^ nat decimals)))) (to_float (10 ^ nat decimals))
      else np_mul (np_rint (np_div v (to_float (10 ^ nat (- decimals)))))
             (to_float (10 ^ nat (- decimals))))"

text \<open>
  \<open>round(x, 4)\<close> of a Python float: the multiple of \<open>1/10000\<close> nearest to the exact
  value of \<open>x\<close>, half to even, as a float.
\<close>

fun py_round4 :: "npfloat \<Rightarrow> npfloat" where
  "py_round4 (Fin x) = to_float (of_int (round_half_even (x * 10 ^ 4)) / 10 ^ 4)"
| "py_round4 PInf = PInf"
| "py_round4 NInf = NInf"
| "py_round4 NaN = NaN"

text \<open>
  \<open>int(x)\<close> of a float truncates towards zero; it raises \<open>ValueError\<close> on \<open>nan\<close> and
  \<open>OverflowError\<close> on an infinity. \<open>py_float n\<close> is the float an integer count becomes
  when it is multiplied with a float. A number passed as a fraction is a Python \<open>int\<close>
  or a \<open>float\<close>.
\<close>

datatype py_num = PyInt int | PyFloat npfloat

fun py_int :: "npfloat \<Rightarrow> py_error + int" where
  "py_int (Fin x) = Inr (if 0 \<le> x then \<lfloor>x\<rfloor> else \<lceil>x\<rceil>)"
| "py_int NaN = Inl ValueError"
| "py_int PInf = Inl OverflowError"
| "py_int NInf = Inl OverflowError"

definition py_float :: "nat \<Rightarrow> npfloat" where
  "py_float n = to_float (real n)"

text \<open>
  The slices \<open>df.iloc[:k]\<close> and \<open>df.iloc[k:]\<close>; a negative \<open>k\<close> counts from the end.
\<close>

definition iloc_to :: "int \<Rightarrow> 'a list \<Rightarrow> 'a list" where
  "iloc_to k xs = (if 0 \<le> k then take (nat k) xs else take (length xs - nat (- k)) xs)"

definition iloc_from :: "int \<Rightarrow> 'a list \<Rightarrow> 'a list" where
  "iloc_from k xs = (if 0 \<le> k then drop (nat k) xs else drop (length xs - nat (- k)) xs)"

text \<open>
  A local variable of a Python function is a value or unbound (after \<open>del\<close>); reading
  an unbound local raises \<open>UnboundLocalError\<close>.
\<close>

definition read_local :: "'a option \<Rightarrow> py_error + 'a" where
  "read_local v = (case v of None \<Rightarrow> Inl UnboundLocalError | Some x \<Rightarrow> Inr x)"

text \<open>\<open>str(i)\<close> of an integer, as an f-string formats it.\<close>

fun str_nat :: "nat \<Rightarrow> string" where
  "str_nat n =
     (if n < 10 then [''0123456789'' ! n]
      else str_nat (n div 10) @ [''0123456789'' ! (n mod 10)])"

declare str_nat.simps [simp del]

definition str_int :: "int \<Rightarrow> string" where
  "str_int i = (if i < 0 then CHR ''-'' # str_nat (nat (- i)) else str_nat (nat i))"

section \<open>Frames, the forecasting model and the libraries\<close>

text \<open>
  A feature frame: its column names with their dtypes, in order, and its rows. A row
  carries the cells this code reads itself (\<open>ds\<close>, \<open>Income_Total\<close> and the target
  \<open>y\<close>, here \<open>y_val\<close>); the other cells go to the encoder and to the forecasting
  library only. Whether a frame has a column is decided by \<open>columns\<close>. The
  \<open>Income_Total\<close> cells are finite floats (missing cells were filled with 0 before).
  \<open>feats.sort_values('ds')\<close> is \<open>sort_key ds\<close> on the rows: rows of the same date keep
  their order, which pandas does not promise.
\<close>

datatype dtype = Object | Numeric | Datetime

datatype cell = Num npfloat | Str string

record row =
  ds :: int
  Income_Total :: real
  y_val :: npfloat
  covariates :: "string \<Rightarrow> cell option"

record frame =
  columns :: "(string \<times> dtype) list"
  rows :: "row list"

definition has_column :: "frame \<Rightarrow> string \<Rightarrow> bool" where
  "has_column feats c = (c \<in> set (map fst (columns feats)))"

text \<open>The keys of a dict built from a list of keys: each key once, at its first place.\<close>

fun dict_keys :: "'a list \<Rightarrow> 'a list" where
  "dict_keys [] = []"
| "dict_keys (k # ks) = k # dict_keys (filter (\<lambda>x. x \<noteq> k) ks)"

text \<open>
  The forecasting model as this code sees it: the regressors attached to it, in order,
  and the fitted parameters (none before \<open>fit\<close>). The parameters are the library's.
\<close>

record 'p prophet =
  extra_regressors :: "string list"
  params :: "'p option"

definition Prophet :: "'p prophet" where
  "Prophet = \<lparr>extra_regressors = [], params = None\<rparr>"

text \<open>
  The library calls, as parameters. A frame handed to the forecasting library is given
  by its columns, the rows its \<open>ds\<close> and \<open>y\<close> come from, and the rows its regressor
  values come from.
  \<^item> \<open>series_mean\<close>, \<open>series_std0\<close>: pandas' \<open>Series.mean()\<close> and
    \<open>Series.std(ddof=0)\<close> of a column of finite floats;
  \<^item> \<open>np_sum\<close>, \<open>np_mean\<close>: numpy's reductions of an array;
  \<^item> \<open>pipe_transform\<close>: the encoder built from the categorical and numeric columns,
    fitted on the first rows, applied to the second (\<open>feature_pipe.fit\<close>, then
    \<open>feature_pipe.transform\<close>);
  \<^item> \<open>prophet_reserved\<close>: the names for which \<open>m.add_regressor(name)\<close> raises
    \<open>ValueError\<close> on a new model;
  \<^item> \<open>prophet_fit\<close>: \<open>m.fit(frame)\<close> or \<open>m.fit(frame, init=...)\<close>, giving the fitted
    parameters;
  \<^item> \<open>prophet_predict\<close>: \<open>m.predict(frame)['yhat']\<close>, one value for each row;
  \<^item> the scikit-learn scores, the serialization of a model, and the extraction of the
    warm-start parameters from a fitted model (\<open>warm_start_params\<close>).

  The sums and means are parameters because the order in which a library adds is its
  own; each single operation on floats is modelled above. The calls that return a sum
  type can raise.
\<close>

record 'p lib =
  series_mean :: "real list \<Rightarrow> npfloat"
  series_std0 :: "real list \<Rightarrow> npfloat"
  np_sum :: "npfloat list \<Rightarrow> npfloat"
  np_mean :: "npfloat list \<Rightarrow> npfloat"
  pipe_transform ::
    "string list \<times> string list \<Rightarrow> row list \<Rightarrow> row list \<Rightarrow> py_error + row list"
  prophet_reserved :: "string \<Rightarrow> bool"
  prophet_fit ::
    "'p prophet \<Rightarrow> string list \<Rightarrow> row list \<Rightarrow> row list \<Rightarrow> 'p option \<Rightarrow> py_error + 'p"
  prophet_predict ::
    "'p prophet \<Rightarrow> string list \<Rightarrow> row list \<Rightarrow> row list \<Rightarrow> py_error + npfloat list"
  mean_absolute_error :: "npfloat list \<Rightarrow> npfloat list \<Rightarrow> py_error + npfloat"
  mean_squared_error :: "npfloat list \<Rightarrow> npfloat list \<Rightarrow> py_error + npfloat"
  r2_score :: "npfloat list \<Rightarrow> npfloat list \<Rightarrow> py_error + npfloat"
  accuracy_score :: "npfloat list \<Rightarrow> npfloat list \<Rightarrow> py_error + npfloat"
  model_to_json :: "'p prophet \<Rightarrow> string"
  model_from_json :: "string \<Rightarrow> py_error + 'p prophet"
  warm_start_params :: "'p prophet \<Rightarrow> py_error + 'p"

section \<open>Standardization of the income target\<close>

text \<open>The column expression \<open>(dataframe['Income_Total'] - mu) / sigma\<close>.\<close>

definition standardize :: "real list \<Rightarrow> npfloat \<Rightarrow> npfloat \<Rightarrow> npfloat list" where
  "standardize incomes mu sigma = map (\<lambda>x. np_div (np_sub (Fin x) mu) sigma) incomes"

text \<open>
  \<open>extract_features\<close> (featureExtraction.py): of the columns it adds, only the target
  \<open>y\<close> is modelled, from the \<open>Income_Total\<close> column; the function returns that column.
  \<open>sigma\<close> is the population standard deviation as computed, with no guard.
\<close>

definition extract_features :: "'p lib \<Rightarrow> real list \<Rightarrow> npfloat list" where
  "extract_features lib Income_Total_col =
     (let mu = series_mean lib Income_Total_col;
          sigma = series_std0 lib Income_Total_col
      in standardize Income_Total_col mu sigma)"

text \<open>
  \<open>float(v) or 1.0\<close>: a float is falsy only when it is zero, so \<open>nan\<close> and the
  infinities stay as they are.
\<close>

definition float_or_1 :: "npfloat \<Rightarrow> npfloat" where
  "float_or_1 v = (case v of Fin s \<Rightarrow> if s = 0 then Fin 1 else Fin s | _ \<Rightarrow> v)"

text \<open>
  The first lines of \<open>train_prophet\<close>, \<open>retrain_prophet\<close> (inference.py) and
  \<open>_train_prophet\<close> (main.py) are the same in the three: sort by \<open>ds\<close>, require the
  \<open>Income_Total\<close> column, compute \<open>_mu_sigma\<close>, and add the target \<open>y\<close> if the frame
  has none. \<open>mu_sigma\<close> is the pair, \<open>add_y_column\<close> the conditional assignment, and
  \<open>standardized_feats\<close> the whole: the frame and the pair, or the \<open>ValueError\<close>.
\<close>

definition mu_sigma :: "'p lib \<Rightarrow> real list \<Rightarrow> npfloat \<times> npfloat" where
  "mu_sigma lib Income_Total_col =
     (let mu = series_mean lib Income_Total_col;
          sigma = float_or_1 (series_std0 lib Income_Total_col)
      in (mu, sigma))"

definition add_y_column :: "frame \<Rightarrow> npfloat \<Rightarrow> npfloat \<Rightarrow> frame" where
  "add_y_column feats mu sigma =
     (if has_column feats ''y'' then feats
      else \<lparr>columns = columns feats @ [(''y'', Numeric)],
            rows = map2 (\<lambda>r v. r\<lparr>y_val := v\<rparr>) (rows feats)
                     (standardize (map Income_Total (rows feats)) mu sigma)\<rparr>)"

definition standardized_feats ::
  "'p lib \<Rightarrow> frame \<Rightarrow> py_error + frame \<times> (npfloat \<times> npfloat)" where
  "standardized_feats lib feats0 =
     (let feats = feats0\<lparr>rows := sort_key ds (rows feats0)\<rparr> in
      if \<not> has_column feats ''Income_Total'' then Inl ValueError
      else
        (let mu_sigma_pair = mu_sigma lib (map Income_Total (rows feats));
             feats = add_y_column feats (fst mu_sigma_pair) (snd mu_sigma_pair)
         in Inr (feats, mu_sigma_pair)))"

text \<open>
  \<open>income_from_standardized\<close> (inference.py): \<open>round(pred_y * sigma + mu, -1)\<close>. The
  predictions are an array: an \<open>np.ndarray\<close>, as the signature says, or a pandas
  Series. The arithmetic is elementwise on both; the builtin \<open>round\<close> calls
  \<open>__round__\<close>, which a Series has (it rounds as \<open>np.round\<close> does) and an
  \<open>np.ndarray\<close> has not.
\<close>

datatype pred = NdArray "npfloat list" | Series "npfloat list"

fun income_from_standardized :: "pred \<Rightarrow> npfloat \<Rightarrow> npfloat \<Rightarrow> py_error + pred" where
  "income_from_standardized (NdArray pred_y) mu sigma = Inl TypeError"
| "income_from_standardized (Series pred_y) mu sigma =
     Inr (Series (map (\<lambda>p. np_round (np_add (np_mul p sigma) mu) (- 1)) pred_y))"

section \<open>Chronological splits\<close>

text \<open>
  \<open>time_series_split\<close> (inference.py), over the rows of the frame:
  \<open>int(n * (1 - test_size))\<close> is computed in floats.
\<close>

definition time_series_split :: "'a list \<Rightarrow> npfloat \<Rightarrow> py_error + 'a list \<times> 'a list" where
  "time_series_split df test_size =
     (let n = length df in
      case py_int (np_mul (py_float n) (np_sub (Fin 1) test_size)) of
        Inl e \<Rightarrow> Inl e
      | Inr split_idx \<Rightarrow>
          (let train_df = iloc_to split_idx df;
               test_df = iloc_from split_idx df
           in Inr (train_df, test_df)))"

text \<open>
  The train/validation split of \<open>train_prophet\<close>, \<open>retrain_prophet\<close> and
  \<open>_train_prophet\<close> (the same three lines in each): the index
  \<open>max(1, int(len(feats) * train_frac))\<close>, and the two partitions; \<open>val_df\<close> is
  \<open>None\<close> when no row is left for it. The product is a binary64 product when
  \<open>train_frac\<close> is a float, and an exact integer when it is an \<open>int\<close> (the endpoint
  of main.py passes \<open>train_frac=1\<close>).
\<close>

definition split_index :: "nat \<Rightarrow> py_num \<Rightarrow> py_error + int" where
  "split_index n train_frac =
     (case train_frac of
        PyInt i \<Rightarrow> Inr (max 1 (int n * i))
      | PyFloat x \<Rightarrow>
          (case py_int (np_mul (py_float n) x) of
             Inl e \<Rightarrow> Inl e
           | Inr k \<Rightarrow> Inr (max 1 k)))"

definition train_val_split ::
  "'a list \<Rightarrow> py_num \<Rightarrow> py_error + 'a list \<times> 'a list option" where
  "train_val_split feats train_frac =
     (case split_index (length feats) train_frac of
        Inl e \<Rightarrow> Inl e
      | Inr split_idx \<Rightarrow>
          (let train_df = iloc_to split_idx feats;
               val_df = (if split_idx < int (length feats)
                         then Some (iloc_from split_idx feats) else None)
           in Inr (train_df, val_df)))"

section \<open>Feature names and fitting\<close>

text \<open>
  \<open>get_feature_pipeline\<close> (inference.py): the column lists the encoder is built from
  (categorical, then numeric) and the feature names.
\<close>

definition get_feature_pipeline ::
  "(string \<times> dtype) list \<Rightarrow> (string list \<times> string list) \<times> string list" where
  "get_feature_pipeline cols =
     (let feat_cols = [c \<leftarrow> map fst cols. c \<notin> set [''ds'', ''y'']];
          cat_cols = [c \<leftarrow> feat_cols. map_of cols c = Some Object];
          num_cols = [c \<leftarrow> feat_cols. c \<notin> set cat_cols];
          feat_names = cat_cols @ num_cols
      in ((cat_cols, num_cols), feat_names))"

text \<open>
  \<open>m.add_regressor(name)\<close> on a model not yet fitted: the library refuses its reserved
  names; otherwise the name is attached, once, at its first place. \<open>add_regressors\<close>
  is the loop \<open>for name in names: m.add_regressor(name)\<close>.
\<close>

definition add_regressor :: "'p lib \<Rightarrow> 'p prophet \<Rightarrow> string \<Rightarrow> py_error + 'p prophet" where
  "add_regressor lib m name =
     (if prophet_reserved lib name then Inl ValueError
      else Inr (m\<lparr>extra_regressors :=
                     (if name \<in> set (extra_regressors m) then extra_regressors m
                      else extra_regressors m @ [name])\<rparr>))"

fun add_regressors :: "'p lib \<Rightarrow> 'p prophet \<Rightarrow> string list \<Rightarrow> py_error + 'p prophet" where
  "add_regressors lib m [] = Inr m"
| "add_regressors lib m (name # names) =
     (case add_regressor lib m name of
        Inl e \<Rightarrow> Inl e
      | Inr m' \<Rightarrow> add_regressors lib m' names)"

text \<open>
  The list comprehension that \<open>fit_prophet\<close>, \<open>infer_prophet\<close> and
  \<open>_train_prophet\<close> each apply to the feature names.
\<close>

definition safe_feature_names :: "string list \<Rightarrow> string list" where
  "safe_feature_names feature_names =
     [name \<leftarrow> feature_names. name \<notin> set [''ds'', ''y'', ''cap'', ''floor'']]"

text \<open>
  \<open>fit_prophet\<close> (inference.py). \<open>regressor_df\<close> holds the encoded rows; the columns
  of \<open>train_for_prophet\<close> are the keys of the dict it is built from, its \<open>ds\<close> and
  \<open>y\<close> are those of \<open>train_df\<close>.
\<close>

definition fit_prophet ::
  "'p lib \<Rightarrow> row list \<Rightarrow> row list \<Rightarrow> string list \<Rightarrow> 'p prophet option \<Rightarrow> py_error + 'p prophet" where
  "fit_prophet lib train_df regressor_df feature_names prev_Model =
     (let safe = safe_feature_names feature_names in
      case add_regressors lib Prophet safe of
        Inl e \<Rightarrow> Inl e
      | Inr m \<Rightarrow>
          (let train_for_prophet = dict_keys ([''ds'', ''y''] @ safe) in
           case prev_Model of
             Some prev \<Rightarrow>
               (case warm_start_params lib prev of
                  Inl e \<Rightarrow> Inl e
                | Inr init \<Rightarrow>
                    (case prophet_fit lib m train_for_prophet train_df regressor_df (Some init) of
                       Inl e \<Rightarrow> Inl e
                     | Inr p \<Rightarrow> Inr (m\<lparr>params := Some p\<rparr>)))
           | None \<Rightarrow>
               (case prophet_fit lib m train_for_prophet train_df regressor_df None of
                  Inl e \<Rightarrow> Inl e
                | Inr p \<Rightarrow> Inr (m\<lparr>params := Some p\<rparr>))))"

section \<open>The artifact store\<close>

text \<open>
  The files of the artifact directory: a path has a text or does not exist. The
  directory itself exists.
\<close>

type_synonym fs = "string \<Rightarrow> string option"

text \<open>\<open>with open(path, "r") as f: f.read()\<close>\<close>

definition open_read :: "fs \<Rightarrow> string \<Rightarrow> py_error + string" where
  "open_read files path = (case files path of None \<Rightarrow> Inl FileNotFoundError | Some t \<Rightarrow> Inr t)"

text \<open>
  \<open>with open(path, 'wb') as f: f.write(text)\<close> for a \<open>str\<close>: opening creates the file,
  or empties it; a file opened in binary mode takes bytes only, so writing a \<open>str\<close>
  raises \<open>TypeError\<close>, and the file is closed as it is left.
\<close>

definition open_wb_write_str :: "fs \<Rightarrow> string \<Rightarrow> string \<Rightarrow> fs \<times> (py_error + unit)" where
  "open_wb_write_str files path text = (files(path \<mapsto> []), Inl TypeError)"

text \<open>The path \<open>train_prophet\<close> writes and \<open>train_model\<close> reads back.\<close>

definition modelUser_path :: "int \<Rightarrow> string" where
  "modelUser_path userId = ''../models/artifacts/modelUser_'' @ str_int userId @ ''.json''"

text \<open>The path \<open>retrain_prophet\<close> reads.\<close>

definition model_user_path :: "int \<Rightarrow> string" where
  "model_user_path userId = ''../models/artifacts/model_user_'' @ str_int userId @ ''.json''"

text \<open>
  \<open>infer_prophet\<close> (inference.py): the model is read from \<open>model_path\<close>; the columns
  of \<open>future\<close> are the keys of the dict it is built from.
\<close>

definition infer_prophet ::
  "'p lib \<Rightarrow> fs \<Rightarrow> string \<Rightarrow> row list \<Rightarrow> row list \<Rightarrow> string list \<Rightarrow> py_error + npfloat list" where
  "infer_prophet lib files model_path df regressor_df feature_names =
     (case open_read files model_path of
        Inl e \<Rightarrow> Inl e
      | Inr text \<Rightarrow>
          (case model_from_json lib text of
             Inl e \<Rightarrow> Inl e
           | Inr m \<Rightarrow>
               (let safe = safe_feature_names feature_names;
                    future = dict_keys (''ds'' # safe)
                in prophet_predict lib m future df regressor_df)))"

text \<open>
  \<open>train_prophet\<close> (inference.py): the statistics and the target, the split, the
  encoder and the fit on the training partition, and the write of the artifact. The
  result is the store as the call leaves it, and the returned pair or the exception.
\<close>

definition train_prophet ::
  "'p lib \<Rightarrow> fs \<Rightarrow> int \<Rightarrow> frame \<Rightarrow> py_num
     \<Rightarrow> fs \<times> (py_error + 'p prophet \<times> (npfloat \<times> npfloat))" where
  "train_prophet lib files userId feats0 train_frac =
     (case standardized_feats lib feats0 of
        Inl e \<Rightarrow> (files, Inl e)
      | Inr (feats, mu_sigma_pair) \<Rightarrow>
     (case train_val_split (rows feats) train_frac of
        Inl e \<Rightarrow> (files, Inl e)
      | Inr (train_df, val_df) \<Rightarrow>
     (let feature_pipe = fst (get_feature_pipeline (columns feats));
          feat_names = snd (get_feature_pipeline (columns feats))
      in case pipe_transform lib feature_pipe train_df train_df of
           Inl e \<Rightarrow> (files, Inl e)
         | Inr reg_train_df \<Rightarrow>
        (case fit_prophet lib train_df reg_train_df feat_names None of
           Inl e \<Rightarrow> (files, Inl e)
         | Inr prophet_model \<Rightarrow>
        (case open_wb_write_str files (modelUser_path userId)
                (model_to_json lib prophet_model) of
           (files', Inl e) \<Rightarrow> (files', Inl e)
         | (files', Inr u) \<Rightarrow> (files', Inr (prophet_model, mu_sigma_pair)))))))"

text \<open>
  \<open>retrain_prophet\<close> (inference.py): the prior model is read first; then the same
  steps as \<open>train_prophet\<close>, warm-started, and the scores on the training partition.
\<close>

definition retrain_prophet ::
  "'p lib \<Rightarrow> fs \<Rightarrow> int \<Rightarrow> frame \<Rightarrow> py_num \<Rightarrow> py_error + npfloat \<times> npfloat" where
  "retrain_prophet lib files userId feats0 train_frac =
     (case open_read files (model_user_path userId) of
        Inl e \<Rightarrow> Inl e
      | Inr text \<Rightarrow>
     (case model_from_json lib text of
        Inl e \<Rightarrow> Inl e
      | Inr m \<Rightarrow>
     (case standardized_feats lib feats0 of
        Inl e \<Rightarrow> Inl e
      | Inr (feats, mu_sigma_pair) \<Rightarrow>
     (case train_val_split (rows feats) train_frac of
        Inl e \<Rightarrow> Inl e
      | Inr (train_df, val_df) \<Rightarrow>
     (let feature_pipe = fst (get_feature_pipeline (columns feats));
          feat_names = snd (get_feature_pipeline (columns feats))
      in case pipe_transform lib feature_pipe train_df train_df of
           Inl e \<Rightarrow> Inl e
         | Inr reg_train_df \<Rightarrow>
        (case fit_prophet lib train_df reg_train_df feat_names (Some m) of
           Inl e \<Rightarrow> Inl e
         | Inr prophet_model \<Rightarrow>
        (case prophet_predict lib prophet_model (''ds'' # feat_names) train_df train_df of
           Inl e \<Rightarrow> Inl e
         | Inr yhat \<Rightarrow>
        (case mean_absolute_error lib (map y_val train_df) yhat of
           Inl e \<Rightarrow> Inl e
         | Inr mae \<Rightarrow>
        (case mean_squared_error lib (map y_val train_df) yhat of
           Inl e \<Rightarrow> Inl e
         | Inr mse \<Rightarrow> Inr (mae, np_sqrt mse))))))))))"

section \<open>Training behind the HTTP endpoint\<close>

text \<open>
  Compiling a module: every \<open>def\<close> needs a body. In main.py the last one,
  \<open>def predict_x_days():\<close>, has none, so compiling the module raises
  \<open>IndentationError\<close>, and in the program as it is no function of main.py is ever
  called. \<open>main_py_defs\<close> lists the functions of main.py, each with whether it has a
  body. The definitions after these embed the bodies of \<open>_train_prophet\<close> and
  \<open>train_endpoint\<close>: what a call computes once the module compiles.
\<close>

definition py_compile :: "(string \<times> bool) list \<Rightarrow> py_error + unit" where
  "py_compile defs = (if list_all snd defs then Inr () else Inl IndentationError)"

definition main_py_defs :: "(string \<times> bool) list" where
  "main_py_defs =
     [(''fill_gas_price'', True), (''get_Monthly_Unemployment_Rate'', True),
      (''_json_to_features'', True), (''_train_prophet'', True), (''train_endpoint'', True),
      (''predict_x_days'', False)]"

text \<open>
  The validation scores of \<open>_train_prophet\<close> (main.py), written with numpy on the two
  arrays: the mean absolute error, the root of the mean squared error, and
  \<open>1 - sum((a - p) ** 2) / sum((a - mean(a)) ** 2)\<close>. The arrays have one entry for
  each validation row.
\<close>

definition val_mae :: "'p lib \<Rightarrow> npfloat list \<Rightarrow> npfloat list \<Rightarrow> npfloat" where
  "val_mae lib val_y_actual val_y_pred =
     np_mean lib (map np_abs (map2 np_sub val_y_actual val_y_pred))"

definition val_rmse :: "'p lib \<Rightarrow> npfloat list \<Rightarrow> npfloat list \<Rightarrow> npfloat" where
  "val_rmse lib val_y_actual val_y_pred =
     np_sqrt (np_mean lib (map (\<lambda>d. np_mul d d) (map2 np_sub val_y_actual val_y_pred)))"

definition val_r2 :: "'p lib \<Rightarrow> npfloat list \<Rightarrow> npfloat list \<Rightarrow> npfloat" where
  "val_r2 lib val_y_actual val_y_pred =
     np_sub (Fin 1)
       (np_div (np_sum lib (map (\<lambda>d. np_mul d d) (map2 np_sub val_y_actual val_y_pred)))
               (np_sum lib (map (\<lambda>a. np_mul (np_sub a (np_mean lib val_y_actual))
                                             (np_sub a (np_mean lib val_y_actual)))
                                 val_y_actual)))"

text \<open>The entries that \<open>metrics.update\<close> adds for the validation partition.\<close>

definition validation_metrics ::
  "'p lib \<Rightarrow> npfloat list \<Rightarrow> npfloat list \<Rightarrow> (string \<times> npfloat) list" where
  "validation_metrics lib val_y_actual val_y_pred =
     [(''val_mae'', val_mae lib val_y_actual val_y_pred),
      (''val_rmse'', val_rmse lib val_y_actual val_y_pred),
      (''val_r2'', val_r2 lib val_y_actual val_y_pred)]"

text \<open>
  \<open>_train_prophet\<close> (main.py). The local \<open>safe_regressors\<close> is bound by the list
  comprehension and unbound by \<open>del safe_regressors, reg_train_df\<close> before the fit; the
  validation branch reads it again when it builds \<open>val_prophet_df\<close>. The result is the
  \<open>metrics\<close> dict or the exception.
\<close>

definition main_train_prophet ::
  "'p lib \<Rightarrow> frame \<Rightarrow> py_num \<Rightarrow> py_error + (string \<Rightarrow> npfloat option)" where
  "main_train_prophet lib feats0 train_frac =
     (case standardized_feats lib feats0 of
        Inl e \<Rightarrow> Inl e
      | Inr (feats, mu_sigma_pair) \<Rightarrow>
     (case train_val_split (rows feats) train_frac of
        Inl e \<Rightarrow> Inl e
      | Inr (train_df, val_df) \<Rightarrow>
     (let feature_pipe = fst (get_feature_pipeline (columns feats));
          feat_names = snd (get_feature_pipeline (columns feats))
      in case pipe_transform lib feature_pipe train_df train_df of
           Inl e \<Rightarrow> Inl e
         | Inr reg_train_df \<Rightarrow>
        (let regs = safe_feature_names feat_names;
             safe_regressors = Some regs
         in case add_regressors lib Prophet regs of
           Inl e \<Rightarrow> Inl e
         | Inr m \<Rightarrow>
        (let train_prophet_df = dict_keys ([''ds'', ''y''] @ regs);
             safe_regressors = None
         in case prophet_fit lib m train_prophet_df train_df reg_train_df None of
           Inl e \<Rightarrow> Inl e
         | Inr p \<Rightarrow>
        (let m = m\<lparr>params := Some p\<rparr> in
         case prophet_predict lib m train_prophet_df train_df reg_train_df of
           Inl e \<Rightarrow> Inl e
         | Inr train_y_pred \<Rightarrow>
        (case mean_absolute_error lib (map y_val train_df) train_y_pred of
           Inl e \<Rightarrow> Inl e
         | Inr train_mae \<Rightarrow>
        (case mean_squared_error lib (map y_val train_df) train_y_pred of
           Inl e \<Rightarrow> Inl e
         | Inr train_mse \<Rightarrow>
        (case r2_score lib (map y_val train_df) train_y_pred of
           Inl e \<Rightarrow> Inl e
         | Inr train_r2 \<Rightarrow>
        (case accuracy_score lib (map (\<lambda>v. np_round v 0) (map y_val train_df))
                (map (\<lambda>v. np_round v 0) train_y_pred) of
           Inl e \<Rightarrow> Inl e
         | Inr train_accuracy \<Rightarrow>
        (let metrics = map_of
               [(''accuracy'', train_accuracy),
                (''train_mae'', train_mae),
                (''train_rmse'', np_round (np_sqrt train_mse) 4),
                (''train_r2'', train_r2)]
         in case val_df of
              None \<Rightarrow> Inr metrics
            | Some val_rows \<Rightarrow>
                if 0 < length val_rows then
                  (case pipe_transform lib feature_pipe train_df val_rows of
                     Inl e \<Rightarrow> Inl e
                   | Inr reg_val_df \<Rightarrow>
                  (case read_local safe_regressors of
                     Inl e \<Rightarrow> Inl e
                   | Inr names \<Rightarrow>
                  (let val_prophet_df = dict_keys (''ds'' # names) in
                   case prophet_predict lib m val_prophet_df val_rows reg_val_df of
                     Inl e \<Rightarrow> Inl e
                   | Inr val_y_pred \<Rightarrow>
                       Inr (metrics ++
                            map_of (validation_metrics lib (map y_val val_rows) val_y_pred)))))
                else Inr metrics)))))))))))"

text \<open>
  \<open>train_endpoint\<close> (main.py), from the features on: it trains with
  \<open>train_frac=1\<close>, and of its answer the \<open>"validation"\<close> entry is modelled: \<open>None\<close>
  unless \<open>metrics\<close> has the key \<open>val_mae\<close>, else the three validation scores rounded
  to four digits. An exception becomes the error answer.
\<close>

definition metrics_get :: "(string \<Rightarrow> npfloat option) \<Rightarrow> string \<Rightarrow> npfloat \<Rightarrow> npfloat" where
  "metrics_get metrics k d = (case metrics k of None \<Rightarrow> d | Some v \<Rightarrow> v)"

definition accuracy_validation ::
  "(string \<Rightarrow> npfloat option) \<Rightarrow> (npfloat \<times> npfloat \<times> npfloat) option" where
  "accuracy_validation metrics =
     (if ''val_mae'' \<in> dom metrics
      then Some (py_round4 (metrics_get metrics ''val_mae'' (Fin 0)),
                 py_round4 (metrics_get metrics ''val_rmse'' (Fin 0)),
                 py_round4 (metrics_get metrics ''val_r2'' (Fin 0)))
      else None)"

definition train_endpoint ::
  "'p lib \<Rightarrow> frame \<Rightarrow> py_error + (npfloat \<times> npfloat \<times> npfloat) option" where
  "train_endpoint lib feats =
     (case main_train_prophet lib feats (PyInt 1) of
        Inl e \<Rightarrow> Inl e
      | Inr metrics \<Rightarrow> Inr (accuracy_validation metrics))"

section \<open>The training pipeline\<close>

text \<open>
  \<open>TrainingPipeline.train_model\<close> (training.py): the body of its \<open>try\<close> block is the
  parameter \<open>body\<close> (it returns the run's info or raises); the handler logs the error to
  the run and raises it again. The tracking state is the list of runs so far, each with
  the error logged to it, if any.
\<close>

type_synonym runs = "(int \<times> py_error option) list"

definition train_model ::
  "(int \<Rightarrow> string \<Rightarrow> py_error + 'r) \<Rightarrow> int \<Rightarrow> string \<Rightarrow> runs \<Rightarrow> runs \<times> (py_error + 'r)" where
  "train_model body userId csv_path tracked =
     (case body userId csv_path of
        Inr run_info \<Rightarrow> (tracked @ [(userId, None)], Inr run_info)
      | Inl e \<Rightarrow> (tracked @ [(userId, Some e)], Inl e))"

text \<open>
  \<open>TrainingPipeline.batch_train_models\<close>: the loop over \<open>user_data.items()\<close>, in the
  dict's order, with the \<open>results\<close> dict so far. Nothing in the loop catches.
\<close>

fun batch_loop ::
  "(int \<Rightarrow> string \<Rightarrow> py_error + 'r) \<Rightarrow> (int \<times> string) list \<Rightarrow> (int \<Rightarrow> 'r option) \<Rightarrow> runs
     \<Rightarrow> runs \<times> (py_error + (int \<Rightarrow> 'r option))" where
  "batch_loop body [] results tracked = (tracked, Inr results)"
| "batch_loop body ((user_id, csv_path) # rest) results tracked =
     (case train_model body user_id csv_path tracked of
        (tracked', Inl e) \<Rightarrow> (tracked', Inl e)
      | (tracked', Inr run_info) \<Rightarrow>
          batch_loop body rest (results(user_id \<mapsto> run_info)) tracked')"

definition batch_train_models ::
  "(int \<Rightarrow> string \<Rightarrow> py_error + 'r) \<Rightarrow> (int \<times> string) list \<Rightarrow> runs
     \<Rightarrow> runs \<times> (py_error + (int \<Rightarrow> 'r option))" where
  "batch_train_models body user_data tracked = batch_loop body user_data Map.empty tracked"

section \<open>Example inputs\<close>

text \<open>
  A sample library for the concrete evaluations below.
  \<^item> Its sums add from left to right in binary64, starting from 0, which is what numpy
    and pandas do on fewer than eight values; the mean divides the sum by the count, and
    the standard deviation is the root of the mean of \<open>(mean - x) ** 2\<close>.
  \<^item> Its \<open>add_regressor\<close> refuses the names Prophet reserves, and its fit refuses a
    frame with fewer than two rows that have a target, as Prophet's does.
  \<^item> Its encoder leaves the rows as they are, and its predictions and scores are fixed
    values; nothing below depends on them.
\<close>

definition seq_sum :: "npfloat list \<Rightarrow> npfloat" where
  "seq_sum xs = foldl np_add (Fin 0) xs"

definition seq_mean :: "npfloat list \<Rightarrow> npfloat" where
  "seq_mean xs = np_div (seq_sum xs) (py_float (length xs))"

definition seq_std0 :: "real list \<Rightarrow> npfloat" where
  "seq_std0 xs =
     (let avg = seq_mean (map Fin xs);
          sqr = map (\<lambda>x. np_mul (np_sub avg (Fin x)) (np_sub avg (Fin x))) xs
      in np_sqrt (np_div (seq_sum sqr) (py_float (length xs))))"

fun str_contains :: "string \<Rightarrow> string \<Rightarrow> bool" where
  "str_contains p [] = (p = [])"
| "str_contains p (c # cs) = (take (length p) (c # cs) = p \<or> str_contains p cs)"

definition prophet_reserved_names :: "string list" where
  "prophet_reserved_names =
     (let names = [''trend'', ''additive_terms'', ''daily'', ''weekly'', ''yearly'',
                   ''holidays'', ''zeros'', ''extra_regressors_additive'', ''yhat'',
                   ''extra_regressors_multiplicative'', ''multiplicative_terms'']
      in names @ map (\<lambda>n. n @ ''_lower'') names @ map (\<lambda>n. n @ ''_upper'') names
         @ [''ds'', ''y'', ''cap'', ''floor'', ''y_scaled'', ''cap_scaled''])"

definition ok_lib :: "unit lib" where
  "ok_lib =
     \<lparr>series_mean = (\<lambda>xs. seq_mean (map Fin xs)),
      series_std0 = seq_std0,
      np_sum = seq_sum,
      np_mean = seq_mean,
      pipe_transform = (\<lambda>pipe fitted df. Inr df),
      prophet_reserved = (\<lambda>name. str_contains ''_delim_'' name \<or> name \<in> set prophet_reserved_names),
      prophet_fit = (\<lambda>m cols train regs init.
         if length [r \<leftarrow> train. y_val r \<noteq> NaN] < 2 then Inl ValueError else Inr ()),
      prophet_predict = (\<lambda>m cols df regs. Inr (map (\<lambda>r. Fin 0) df)),
      mean_absolute_error = (\<lambda>a p. Inr (Fin 0)),
      mean_squared_error = (\<lambda>a p. Inr (Fin 0)),
      r2_score = (\<lambda>a p. Inr (Fin 1)),
      accuracy_score = (\<lambda>a p. Inr (Fin 1)),
      model_to_json = (\<lambda>m. ''{}''),
      model_from_json = (\<lambda>t. Inr Prophet),
      warm_start_params = (\<lambda>m. Inr ())\<rparr>"

text \<open>
  Frames of two and of four days as the feature extraction leaves them, with their
  \<open>y\<close> column: the incomes have mean 1100 (1000) and standard deviation 100.
\<close>

definition two_days :: frame where
  "two_days =
     \<lparr>columns = [(''ds'', Datetime), (''Income_Total'', Numeric), (''Job_Categories'', Object),
                 (''y'', Numeric)],
      rows = [\<lparr>ds = 1, Income_Total = 1000, y_val = Fin (- 1), covariates = (\<lambda>c. None)\<rparr>,
              \<lparr>ds = 2, Income_Total = 1200, y_val = Fin 1, covariates = (\<lambda>c. None)\<rparr>]\<rparr>"

definition four_days :: frame where
  "four_days =
     \<lparr>columns = [(''ds'', Datetime), (''Income_Total'', Numeric), (''Job_Categories'', Object),
                 (''y'', Numeric)],
      rows = [\<lparr>ds = 1, Income_Total = 900, y_val = Fin (- 1), covariates = (\<lambda>c. None)\<rparr>,
              \<lparr>ds = 2, Income_Total = 1100, y_val = Fin 1, covariates = (\<lambda>c. None)\<rparr>,
              \<lparr>ds = 3, Income_Total = 900, y_val = Fin (- 1), covariates = (\<lambda>c. None)\<rparr>,
              \<lparr>ds = 4, Income_Total = 1100, y_val = Fin 1, covariates = (\<lambda>c. None)\<rparr>]\<rparr>"

text \<open>
  The floats nearest to 0.1, 0.7 and 0.29, and a frame of three days with the constant
  income 0.1 and no \<open>y\<close> column.
\<close>

definition d01 :: real where "d01 = 3602879701896397 / 36028797018963968"

definition d07 :: real where "d07 = 3152519739159347 / 4503599627370496"

definition d029 :: real where "d029 = 5224175567749775 / 18014398509481984"

definition three_days_const :: frame where
  "three_days_const =
     \<lparr>columns = [(''ds'', Datetime), (''Income_Total'', Numeric)],
      rows = [\<lparr>ds = 1, Income_Total = d01, y_val = NaN, covariates = (\<lambda>c. None)\<rparr>,
              \<lparr>ds = 2, Income_Total = d01, y_val = NaN, covariates = (\<lambda>c. None)\<rparr>,
              \<lparr>ds = 3, Income_Total = d01, y_val = NaN, covariates = (\<lambda>c. None)\<rparr>]\<rparr>"

text \<open>A frame of two days with the constant income 100 and no \<open>y\<close> column.\<close>

definition two_days_const :: frame where
  "two_days_const =
     \<lparr>columns = [(''ds'', Datetime), (''Income_Total'', Numeric)],
      rows = [\<lparr>ds = 1, Income_Total = 100, y_val = NaN, covariates = (\<lambda>c. None)\<rparr>,
              \<lparr>ds = 2, Income_Total = 100, y_val = NaN, covariates = (\<lambda>c. None)\<rparr>]\<rparr>"

text \<open>A frame of two days that has the columns \<open>cap\<close> and \<open>floor\<close>.\<close>

definition capped_days :: frame where
  "capped_days =
     \<lparr>columns = [(''ds'', Datetime), (''Income_Total'', Numeric), (''cap'', Numeric),
                 (''floor'', Numeric), (''Job_Categories'', Object), (''y'', Numeric)],
      rows = [\<lparr>ds = 1, Income_Total = 1000, y_val = Fin (- 1), covariates = (\<lambda>c. None)\<rparr>,
              \<lparr>ds = 2, Income_Total = 1200, y_val = Fin 1, covariates = (\<lambda>c. None)\<rparr>]\<rparr>"

text \<open>The floats nearest to 0.9 and 0.2.\<close>

definition d09 :: real where "d09 = 8106479329266893 / 9007199254740992"

definition d02 :: real where "d02 = 3602879701896397 / 18014398509481984"

section \<open>Rounding to binary64\<close>

text \<open>
  Facts about \<open>fl\<close>: where the exponent of a number is known, its rounding is
  computed; integers of fewer than 54 bits are floats; rounding is monotone at such
  integers.
\<close>

lemma round_half_even_bound: "\<bar>of_int (round_half_even z) - z\<bar> \<le> 1 / 2"
  unfolding round_half_even_def Let_def by (auto; linarith)

lemma round_half_even_of_int [simp]: "round_half_even (of_int k) = k"
  by (simp add: round_half_even_def)

lemma round_half_even_le: "z \<le> of_int k \<Longrightarrow> round_half_even z \<le> k"
  unfolding round_half_even_def Let_def
  by (auto simp: floor_le_iff; linarith)

lemma round_half_even_ge: "of_int k \<le> z \<Longrightarrow> k \<le> round_half_even z"
  unfolding round_half_even_def Let_def
  by (auto simp: le_floor_iff; linarith)

lemma floor_log2_bounds:
  assumes "x \<noteq> 0"
  shows "2 powi \<lfloor>log 2 \<bar>x\<bar>\<rfloor> \<le> \<bar>x\<bar>" and "\<bar>x\<bar> < 2 powi (\<lfloor>log 2 \<bar>x\<bar>\<rfloor> + 1)"
proof -
  define k where "k = \<lfloor>log 2 \<bar>x\<bar>\<rfloor>"
  have pos: "0 < \<bar>x\<bar>" using assms by simp
  have p1: "(2::real) powr real_of_int k = 2 powi k"
    by (simp add: powr_real_of_int')
  have p2: "(2::real) powr (real_of_int k + 1) = 2 powi (k + 1)"
    using powr_real_of_int' [of 2 "k + 1"] by simp
  have "\<lfloor>log 2 \<bar>x\<bar>\<rfloor> = k \<longleftrightarrow> 2 powr k \<le> \<bar>x\<bar> \<and> \<bar>x\<bar> < 2 powr (k + 1)"
    using pos by (intro floor_log_eq_powr_iff) simp_all
  then have "2 powi k \<le> \<bar>x\<bar> \<and> \<bar>x\<bar> < 2 powi (k + 1)"
    by (simp add: k_def p1 p2 flip: k_def)
  then show "2 powi \<lfloor>log 2 \<bar>x\<bar>\<rfloor> \<le> \<bar>x\<bar>" and "\<bar>x\<bar> < 2 powi (\<lfloor>log 2 \<bar>x\<bar>\<rfloor> + 1)"
    by (simp_all add: k_def)
qed

lemma two_powi_less_imp: "(2::real) powi a < 2 powi b \<Longrightarrow> a < b"
  using power_int_increasing [of b a "2::real"] by (cases "a < b") auto

lemma two_powi_le_imp: "(2::real) powi a \<le> 2 powi b \<Longrightarrow> a \<le> b"
  using power_int_strict_increasing [of b a "2::real"] by (cases "a \<le> b") auto

lemma fl_exponent_eq:
  assumes "2 powi e \<le> \<bar>x\<bar>" "\<bar>x\<bar> < 2 powi (e + 1)" "- 1022 \<le> e"
  shows "fl_exponent x = e"
proof -
  have "(0::real) < 2 powi e"
    by simp
  also note assms(1)
  finally have nz: "x \<noteq> 0"
    by simp
  define k where "k = \<lfloor>log 2 \<bar>x\<bar>\<rfloor>"
  note b = floor_log2_bounds [OF nz, folded k_def]
  have "(2::real) powi e < 2 powi (k + 1)"
    using assms(1) b(2) by linarith
  then have "e < k + 1"
    by (rule two_powi_less_imp)
  moreover have "(2::real) powi k < 2 powi (e + 1)"
    using assms(2) b(1) by linarith
  then have "k < e + 1"
    by (rule two_powi_less_imp)
  ultimately have "k = e" by simp
  then show ?thesis
    using assms(3) by (simp add: fl_exponent_def k_def)
qed

lemma fl_at_exponent:
  assumes "2 powi e \<le> \<bar>x\<bar>" "\<bar>x\<bar> < 2 powi (e + 1)" "- 1022 \<le> e"
  shows "fl x = of_int (round_half_even (x / 2 powi (e - 52))) * 2 powi (e - 52)"
proof -
  have "(0::real) < 2 powi e"
    by simp
  also note assms(1)
  finally have "x \<noteq> 0"
    by simp
  then show ?thesis
    by (simp add: fl_def fl_exponent_eq [OF assms])
qed

lemma fl_0 [simp]: "fl 0 = 0"
  by (simp add: fl_def)

lemma fl_exponent_ge: "- 1022 \<le> fl_exponent x"
  by (simp add: fl_exponent_def)

lemma fl_exponent_less:
  assumes "x \<noteq> 0" "\<bar>x\<bar> < 2 powi (e + 1)" "- 1022 \<le> e"
  shows "fl_exponent x \<le> e"
proof -
  have "(2::real) powi \<lfloor>log 2 \<bar>x\<bar>\<rfloor> < 2 powi (e + 1)"
    using floor_log2_bounds(1) [OF assms(1)] assms(2) by linarith
  then have "\<lfloor>log 2 \<bar>x\<bar>\<rfloor> < e + 1"
    by (rule two_powi_less_imp)
  then show ?thesis
    using assms(3) by (simp add: fl_exponent_def)
qed

text \<open>A multiple of the unit of its own exponent is left as it is.\<close>

lemma fl_multiple:
  assumes "x = of_int j * 2 powi (fl_exponent x - 52)"
  shows "fl x = x"
proof (cases "x = 0")
  case True
  then show ?thesis by simp
next
  case False
  have "x / 2 powi (fl_exponent x - 52) = of_int j"
    using assms by (metis nonzero_eq_divide_eq power_int_eq_0_iff zero_neq_numeral)
  then show ?thesis
    using False assms by (simp add: fl_def)
qed

lemma fl_of_int:
  assumes "\<bar>k\<bar> < 2 ^ 53"
  shows "fl (of_int k) = of_int k"
proof (cases "k = 0")
  case True
  then show ?thesis by simp
next
  case False
  define x :: real where "x = of_int k"
  have nz: "x \<noteq> 0" using False by (simp add: x_def)
  have "\<bar>x\<bar> < 2 ^ 53"
    using assms unfolding x_def by (metis of_int_abs of_int_less_numeral_power_cancel_iff)
  then have "\<bar>x\<bar> < 2 powi (52 + 1)"
    by simp
  then have e: "fl_exponent x \<le> 52"
    using fl_exponent_less [OF nz, of 52] by simp
  define m where "m = nat (52 - fl_exponent x)"
  have q: "(2::real) powi (fl_exponent x - 52) = 1 / 2 ^ m"
  proof -
    have "fl_exponent x - 52 = - int m"
      using e by (simp add: m_def)
    then show ?thesis
      by (simp add: power_int_minus_divide)
  qed
  have "x = of_int (k * 2 ^ m) * 2 powi (fl_exponent x - 52)"
    unfolding q by (simp add: x_def)
  then show ?thesis
    unfolding x_def [symmetric] by (rule fl_multiple)
qed

lemma fl_nonneg: "0 \<le> x \<Longrightarrow> 0 \<le> fl x"
  by (auto simp: fl_def intro!: mult_nonneg_nonneg round_half_even_ge [of 0, simplified])

text \<open>Rounding never passes an integer of fewer than 54 bits.\<close>

lemma fl_le_int:
  assumes "0 \<le> x" "x \<le> of_int k" "k < 2 ^ 53"
  shows "fl x \<le> of_int k"
proof (cases "x = 0")
  case True
  then show ?thesis using assms by simp
next
  case False
  have "(of_int k :: real) < 2 ^ 53"
    using assms(3) by simp
  then have "x < 2 ^ 53"
    using assms(2) by linarith
  then have "\<bar>x\<bar> < 2 powi (52 + 1)"
    using assms(1) by simp
  then have e: "fl_exponent x \<le> 52"
    using fl_exponent_less [OF False, of 52] by simp
  define m where "m = nat (52 - fl_exponent x)"
  have q: "(2::real) powi (fl_exponent x - 52) = 1 / 2 ^ m"
  proof -
    have "fl_exponent x - 52 = - int m"
      using e by (simp add: m_def)
    then show ?thesis
      by (simp add: power_int_minus_divide)
  qed
  have "x * 2 ^ m \<le> of_int (k * 2 ^ m)"
    using assms(2) by simp
  then have "round_half_even (x * 2 ^ m) \<le> k * 2 ^ m"
    by (rule round_half_even_le)
  then have "of_int (round_half_even (x * 2 ^ m)) \<le> (of_int (k * 2 ^ m) :: real)"
    by (simp only: of_int_le_iff)
  then have "of_int (round_half_even (x * 2 ^ m)) / 2 ^ m \<le> (of_int k :: real)"
    by (simp add: divide_le_eq)
  then show ?thesis
    using False by (simp add: fl_def q)
qed

lemma to_float_of_int:
  assumes "\<bar>k\<bar> < 2 ^ 53"
  shows "to_float (of_int k) = Fin (of_int k)"
proof -
  have "\<bar>of_int k :: real\<bar> < 2 ^ 53"
    using assms by (metis of_int_abs of_int_less_numeral_power_cancel_iff)
  moreover have "(2::real) ^ 53 < 2 ^ 1024"
    by simp
  ultimately show ?thesis
    unfolding to_float_def fl_of_int [OF assms] by (simp add: abs_less_iff)
qed

lemma to_float_numeral [simp]:
  "numeral w < (2::int) ^ 53 \<Longrightarrow> to_float (numeral w) = Fin (numeral w)"
  using to_float_of_int [of "numeral w"] by simp

lemma to_float_neg_numeral [simp]:
  "numeral w < (2::int) ^ 53 \<Longrightarrow> to_float (- numeral w) = Fin (- numeral w)"
  using to_float_of_int [of "- numeral w"] by simp

lemma to_float_0 [simp]: "to_float 0 = Fin 0"
  using to_float_of_int [of 0] by simp

lemma to_float_1 [simp]: "to_float 1 = Fin 1"
  using to_float_of_int [of 1] by simp

lemma fl_abs_le: "\<bar>fl x\<bar> \<le> 2 powi (fl_exponent x + 1)"
proof (cases "x = 0")
  case True
  then show ?thesis by simp
next
  case False
  define e where "e = fl_exponent x"
  define q :: real where "q = 2 powi (e - 52)"
  have qpos: "0 < q" by (simp add: q_def)
  have lt: "\<bar>x\<bar> < 2 powi (e + 1)"
  proof -
    have "\<bar>x\<bar> < 2 powi (\<lfloor>log 2 \<bar>x\<bar>\<rfloor> + 1)"
      by (rule floor_log2_bounds(2) [OF False])
    also have "\<dots> \<le> 2 powi (e + 1)"
      by (intro power_int_increasing) (simp_all add: e_def fl_exponent_def)
    finally show ?thesis .
  qed
  have split: "(2::real) powi (e + 1) = 2 ^ 53 * q"
  proof -
    have "e + 1 = 53 + (e - 52)" by simp
    then have "(2::real) powi (e + 1) = 2 powi (53 + (e - 52))" by (rule arg_cong)
    also have "\<dots> = 2 powi 53 * 2 powi (e - 52)"
      by (subst power_int_add) simp_all
    finally show ?thesis by (simp add: q_def)
  qed
  have "\<bar>x\<bar> \<le> 2 ^ 53 * q"
    using lt by (simp add: split)
  then have "\<bar>x / q\<bar> \<le> 2 ^ 53"
    using qpos by (simp add: divide_le_eq)
  then have z: "x / q \<le> 2 ^ 53" "- (2 ^ 53) \<le> x / q"
    by linarith+
  have up: "round_half_even (x / q) \<le> 2 ^ 53"
    using z(1) by (intro round_half_even_le) simp
  have lo: "- (2 ^ 53) \<le> round_half_even (x / q)"
    using z(2) by (intro round_half_even_ge) simp
  have "(of_int (round_half_even (x / q)) :: real) \<le> of_int (2 ^ 53)"
    using up by (simp only: of_int_le_iff)
  moreover have "(of_int (- (2 ^ 53)) :: real) \<le> of_int (round_half_even (x / q))"
    using lo by (simp only: of_int_le_iff)
  ultimately have "\<bar>of_int (round_half_even (x / q)) :: real\<bar> \<le> 2 ^ 53"
    by (simp add: abs_le_iff)
  then have "\<bar>of_int (round_half_even (x / q)) * q\<bar> \<le> 2 ^ 53 * q"
    using qpos by (simp add: abs_mult)
  then have "\<bar>of_int (round_half_even (x / q)) * q\<bar> \<le> 2 powi (e + 1)"
    by (simp only: split)
  moreover have "fl x = of_int (round_half_even (x / q)) * q"
    using False by (simp add: fl_def e_def q_def)
  ultimately show ?thesis
    by (simp only: e_def)
qed

text \<open>
  The rule by which the concrete roundings below are computed: between \<open>2 powi e\<close> and
  \<open>2 powi (e + 1)\<close> the result is the nearest multiple of \<open>2 powi (e - 52)\<close>.
\<close>

lemma to_float_at:
  assumes "2 powi e \<le> \<bar>x\<bar>" "\<bar>x\<bar> < 2 powi (e + 1)" "- 1022 \<le> e" "e < 1023"
  shows "to_float x = Fin (of_int (round_half_even (x / 2 powi (e - 52))) * 2 powi (e - 52))"
proof -
  have ex: "fl_exponent x = e"
    by (rule fl_exponent_eq [OF assms(1-3)])
  have "\<bar>fl x\<bar> \<le> 2 powi (e + 1)"
    using fl_abs_le [of x] by (simp add: ex)
  also have "\<dots> \<le> 2 powi 1023"
    using assms(4) by (intro power_int_increasing) simp_all
  also have "\<dots> < (2::real) ^ 1024"
    by simp
  finally have "\<bar>fl x\<bar> < 2 ^ 1024" .
  then show ?thesis
    unfolding to_float_def fl_at_exponent [OF assms(1-3)] by (simp add: abs_less_iff)
qed

lemma fl_ge_int:
  assumes "0 \<le> k" "of_int k \<le> x" "x < 2 ^ 53"
  shows "of_int k \<le> fl x"
proof (cases "x = 0")
  case True
  then show ?thesis using assms by simp
next
  case False
  have "(0::real) \<le> of_int k" using assms(1) by simp
  then have x0: "0 \<le> x" using assms(2) by linarith
  have "\<bar>x\<bar> < 2 powi (52 + 1)"
    using assms(3) x0 by simp
  then have e: "fl_exponent x \<le> 52"
    using fl_exponent_less [OF False, of 52] by simp
  define m where "m = nat (52 - fl_exponent x)"
  have q: "(2::real) powi (fl_exponent x - 52) = 1 / 2 ^ m"
  proof -
    have "fl_exponent x - 52 = - int m"
      using e by (simp add: m_def)
    then show ?thesis
      by (simp add: power_int_minus_divide)
  qed
  have "of_int (k * 2 ^ m) \<le> x * 2 ^ m"
    using assms(2) by simp
  then have "k * 2 ^ m \<le> round_half_even (x * 2 ^ m)"
    by (rule round_half_even_ge)
  then have "(of_int (k * 2 ^ m) :: real) \<le> of_int (round_half_even (x * 2 ^ m))"
    by (simp only: of_int_le_iff)
  then have "(of_int k :: real) \<le> of_int (round_half_even (x * 2 ^ m)) / 2 ^ m"
    by (simp add: le_divide_eq)
  then show ?thesis
    using False by (simp add: fl_def q)
qed

lemma py_float_small: "n < 2 ^ 53 \<Longrightarrow> py_float n = Fin (real n)"
  using to_float_of_int [of "int n"] by (simp add: py_float_def)

lemma to_float_bounded:
  assumes "0 \<le> x" "x \<le> of_nat n" "n < 2 ^ 53"
  shows "to_float x = Fin (fl x)" and "0 \<le> fl x" and "fl x \<le> of_nat n"
proof -
  show a: "0 \<le> fl x" using assms(1) by (rule fl_nonneg)
  have "fl x \<le> of_int (int n)"
    using assms by (intro fl_le_int) simp_all
  then show b: "fl x \<le> of_nat n" by simp
  have "real n < 2 ^ 53"
    using assms(3) by (metis of_nat_less_numeral_power_cancel_iff)
  moreover have "(2::real) ^ 53 < 2 ^ 1024"
    by simp
  ultimately have "fl x < 2 ^ 1024"
    using b by linarith
  then show "to_float x = Fin (fl x)"
    using a by (simp add: to_float_def)
qed

text \<open>The floor of a rounded value is the floor of the value, or one more.\<close>

lemma floor_fl:
  assumes "0 \<le> x" "x < 2 ^ 52"
  shows "\<lfloor>x\<rfloor> \<le> \<lfloor>fl x\<rfloor>" and "\<lfloor>fl x\<rfloor> \<le> \<lfloor>x\<rfloor> + 1"
proof -
  have fx: "0 \<le> \<lfloor>x\<rfloor>" using assms(1) by simp
  have "of_int \<lfloor>x\<rfloor> \<le> fl x"
    using assms by (intro fl_ge_int fx) simp_all
  then show "\<lfloor>x\<rfloor> \<le> \<lfloor>fl x\<rfloor>"
    by (simp add: le_floor_iff)
  have "\<lfloor>x\<rfloor> < 2 ^ 52"
    using assms(2) by (simp add: floor_less_iff)
  then have "\<lfloor>x\<rfloor> + 1 < 2 ^ 53" by simp
  moreover have "x \<le> of_int (\<lfloor>x\<rfloor> + 1)" by linarith
  ultimately have "fl x \<le> of_int (\<lfloor>x\<rfloor> + 1)"
    using assms(1) by (intro fl_le_int)
  then show "\<lfloor>fl x\<rfloor> \<le> \<lfloor>x\<rfloor> + 1"
    by (simp add: floor_le_iff)
qed

text \<open>
  \<open>int(n * f)\<close> for a count \<open>n\<close> and a float \<open>f\<close> between 0 and 1: the floor of the
  rounded product, between 0 and \<open>n\<close>.
\<close>

lemma split_index_fraction:
  assumes "0 \<le> f" "f \<le> 1" "n < 2 ^ 53"
  shows "py_int (np_mul (py_float n) (Fin f)) = Inr \<lfloor>fl (real n * f)\<rfloor>"
    and "0 \<le> \<lfloor>fl (real n * f)\<rfloor>"
    and "\<lfloor>fl (real n * f)\<rfloor> \<le> int n"
proof -
  have nonneg: "0 \<le> real n * f"
    using assms by simp
  have le: "real n * f \<le> of_nat n"
    using assms by (simp add: mult_left_le)
  note b = to_float_bounded [OF nonneg le assms(3)]
  show "py_int (np_mul (py_float n) (Fin f)) = Inr \<lfloor>fl (real n * f)\<rfloor>"
    using b by (simp add: py_float_small [OF assms(3)])
  show "0 \<le> \<lfloor>fl (real n * f)\<rfloor>"
    using b(2) by simp
  show "\<lfloor>fl (real n * f)\<rfloor> \<le> int n"
    using b(3) by (simp add: floor_le_iff)
qed

lemma one_minus_test_size:
  assumes "0 \<le> t" "t < 1"
  shows "np_sub (Fin 1) (Fin t) = Fin (fl (1 - t))" and "0 \<le> fl (1 - t)" and "fl (1 - t) \<le> 1"
  using to_float_bounded [of "1 - t" 1] assms by (simp_all add: np_sub_def)

section \<open>The splits\<close>

lemma sorted_take_drop_le:
  assumes "sorted (map key df)" "a \<in> set (take k df)" "b \<in> set (drop k df)"
  shows "key a \<le> key b"
proof -
  have "sorted (map key (take k df) @ map key (drop k df))"
    using assms(1) by (simp flip: map_append)
  then show ?thesis
    using assms(2,3) by (auto simp: sorted_append)
qed

lemma distinct_take_drop_neq:
  assumes "distinct (map key df)" "a \<in> set (take k df)" "b \<in> set (drop k df)"
  shows "key a \<noteq> key b"
proof -
  have "distinct (map key (take k df) @ map key (drop k df))"
    using assms(1) by (simp flip: map_append)
  then show ?thesis
    using assms(2,3) by auto
qed

lemma take_drop_chronological:
  assumes "sorted (map key df)"
  shows "\<forall>a \<in> set (take k df). \<forall>b \<in> set (drop k df).
           key a \<le> key b \<and> (distinct (map key df) \<longrightarrow> key a < key b)"
  using sorted_take_drop_le [OF assms] distinct_take_drop_neq [of key df]
  by (metis order_le_imp_less_or_eq)

text \<open>
  The train/validation split on a non-empty frame and a float fraction \<open>f\<close> in
  \<open>(0, 1]\<close>: the index is \<open>max 1 \<lfloor>fl (n * f)\<rfloor>\<close>, with \<open>fl (n * f)\<close> the binary64
  product.
\<close>

lemma train_val_split_float:
  assumes "feats \<noteq> []" "0 < f" "f \<le> 1" "length feats < 2 ^ 52"
  shows "split_index (length feats) (PyFloat (Fin f)) = Inr (max 1 \<lfloor>fl (real (length feats) * f)\<rfloor>)
    \<and> \<lfloor>real (length feats) * f\<rfloor> \<le> \<lfloor>fl (real (length feats) * f)\<rfloor>
    \<and> \<lfloor>fl (real (length feats) * f)\<rfloor> \<le> \<lfloor>real (length feats) * f\<rfloor> + 1
    \<and> max 1 \<lfloor>fl (real (length feats) * f)\<rfloor> \<le> int (length feats)
    \<and> train_val_split feats (PyFloat (Fin f))
        = Inr (take (nat (max 1 \<lfloor>fl (real (length feats) * f)\<rfloor>)) feats,
               if max 1 \<lfloor>fl (real (length feats) * f)\<rfloor> < int (length feats)
               then Some (drop (nat (max 1 \<lfloor>fl (real (length feats) * f)\<rfloor>)) feats)
               else None)
    \<and> 1 \<le> length (take (nat (max 1 \<lfloor>fl (real (length feats) * f)\<rfloor>)) feats)
    \<and> length (take (nat (max 1 \<lfloor>fl (real (length feats) * f)\<rfloor>)) feats)
        = nat (max 1 \<lfloor>fl (real (length feats) * f)\<rfloor>)
    \<and> length (drop (nat (max 1 \<lfloor>fl (real (length feats) * f)\<rfloor>)) feats)
        = length feats - nat (max 1 \<lfloor>fl (real (length feats) * f)\<rfloor>)"
proof -
  define n where "n = length feats"
  define k where "k = max 1 \<lfloor>fl (real n * f)\<rfloor>"
  have n: "0 < n" "n < 2 ^ 52" "n < 2 ^ 53"
    using assms(1,4) by (simp_all add: n_def)
  have f0: "0 \<le> f" using assms(2) by simp
  note p = split_index_fraction [OF f0 assms(3) n(3)]
  have idx: "split_index n (PyFloat (Fin f)) = Inr k"
    by (simp add: split_index_def p(1) k_def)
  have k: "1 \<le> k" "k \<le> int n"
    using p(3) n(1) by (simp_all add: k_def)
  have x: "0 \<le> real n * f" "real n * f < 2 ^ 52"
  proof -
    show "0 \<le> real n * f" using f0 by simp
    have "real n * f \<le> real n" using assms(3) by (simp add: mult_left_le)
    moreover have "real n < 2 ^ 52"
      using n(2) by (metis of_nat_less_numeral_power_cancel_iff)
    ultimately show "real n * f < 2 ^ 52" by linarith
  qed
  note fl = floor_fl [OF x]
  have tv: "train_val_split feats (PyFloat (Fin f))
      = Inr (take (nat k) feats, if k < int n then Some (drop (nat k) feats) else None)"
    using k by (simp add: train_val_split_def idx [unfolded n_def] iloc_to_def iloc_from_def
        n_def Let_def)
  have len: "length (take (nat k) feats) = nat k" "1 \<le> length (take (nat k) feats)"
    using k by (simp_all add: n_def)
  show ?thesis
    using idx fl k tv len unfolding k_def n_def by simp
qed

text \<open>Roundings used in the examples.\<close>

lemma mul_10_d07_float: "to_float (10 * d07) = Fin 7"
  by (simp add: d07_def, subst to_float_at [of 2])
     (simp_all add: round_half_even_def power_int_minus_divide)

lemma mul_100_d029_float:
  "to_float (100 * d029) = Fin (8162774324609023 / 281474976710656)"
  by (simp add: d029_def, subst to_float_at [of 4])
     (simp_all add: round_half_even_def power_int_minus_divide)

lemma fl_three_quarters: "fl (3 / 4) = 3 / 4"
  by (subst fl_at_exponent [of "- 1"])
     (simp_all add: round_half_even_def power_int_minus_divide)

text \<open>
  Claim C10, as the code computes it. For a non-empty frame of \<open>n\<close> rows (fewer than
  \<open>2 ^ 52\<close>) and a float training fraction \<open>f\<close> in \<open>(0, 1]\<close>, the split index is
  \<open>max(1, int(n * f))\<close> with the product rounded to binary64: it is
  \<open>max 1 \<lfloor>fl (n * f)\<rfloor>\<close>, where \<open>\<lfloor>fl (n * f)\<rfloor>\<close> is \<open>\<lfloor>n * f\<rfloor>\<close> or one more, and it is at
  most \<open>n\<close>. The training partition is the first rows up to the index, so it has at
  least one row, and the validation partition is the remaining rows, or \<open>None\<close> when
  none is left.
\<close>

theorem train_val_split_nonempty:
  assumes "feats \<noteq> []" "0 < f" "f \<le> 1" "length feats < 2 ^ 52"
  shows "split_index (length feats) (PyFloat (Fin f)) = Inr (max 1 \<lfloor>fl (real (length feats) * f)\<rfloor>)
    \<and> \<lfloor>real (length feats) * f\<rfloor> \<le> \<lfloor>fl (real (length feats) * f)\<rfloor>
    \<and> \<lfloor>fl (real (length feats) * f)\<rfloor> \<le> \<lfloor>real (length feats) * f\<rfloor> + 1
    \<and> max 1 \<lfloor>fl (real (length feats) * f)\<rfloor> \<le> int (length feats)
    \<and> train_val_split feats (PyFloat (Fin f))
        = Inr (take (nat (max 1 \<lfloor>fl (real (length feats) * f)\<rfloor>)) feats,
               if max 1 \<lfloor>fl (real (length feats) * f)\<rfloor> < int (length feats)
               then Some (drop (nat (max 1 \<lfloor>fl (real (length feats) * f)\<rfloor>)) feats)
               else None)
    \<and> 1 \<le> length (take (nat (max 1 \<lfloor>fl (real (length feats) * f)\<rfloor>)) feats)
    \<and> length (take (nat (max 1 \<lfloor>fl (real (length feats) * f)\<rfloor>)) feats)
        = nat (max 1 \<lfloor>fl (real (length feats) * f)\<rfloor>)
    \<and> length (drop (nat (max 1 \<lfloor>fl (real (length feats) * f)\<rfloor>)) feats)
        = length feats - nat (max 1 \<lfloor>fl (real (length feats) * f)\<rfloor>)"
  by (rule train_val_split_float [OF assms])

text \<open>
  Three rows and the fraction 1/4: the product is 3/4, its floor is 0, and one row is
  trained on.
\<close>

theorem train_val_split_nonempty_witness:
  "[1, 2, 3 :: nat] \<noteq> [] \<and> (0::real) < 1 / 4 \<and> (1::real) / 4 \<le> 1
    \<and> length [1, 2, 3 :: nat] < 2 ^ 52
    \<and> \<lfloor>fl (real (length [1, 2, 3 :: nat]) * (1 / 4))\<rfloor> = 0
    \<and> split_index (length [1, 2, 3 :: nat]) (PyFloat (Fin (1 / 4))) = Inr 1
    \<and> train_val_split [1, 2, 3 :: nat] (PyFloat (Fin (1 / 4))) = Inr ([1], Some [2, 3])"
  using train_val_split_nonempty [of "[1, 2, 3 :: nat]" "1 / 4"]
  by (simp add: fl_three_quarters)

text \<open>
  Claim C10 as stated, with the exact product, fails on ten rows at the fraction 0.7 and
  on a hundred rows at 0.29. The float nearest to 0.7 is below it, so the floor of the
  exact product is 6, but the binary64 product is 7.0 and seven rows are trained on. The
  binary64 product \<open>100 * 0.29\<close> is below 29, so 28 rows are trained on, and not
  \<open>\<lfloor>100 * (29 / 100)\<rfloor> = 29\<close>.
\<close>

theorem split_index_counterexample:
  "split_index 10 (PyFloat (Fin d07)) = Inr 7 \<and> max 1 \<lfloor>real 10 * d07\<rfloor> = 6
   \<and> split_index 100 (PyFloat (Fin d029)) = Inr 28 \<and> max 1 \<lfloor>real 100 * (29 / 100)\<rfloor> = 29"
proof -
  have a: "split_index 10 (PyFloat (Fin d07)) = Inr 7"
    by (simp add: split_index_def py_float_def mul_10_d07_float)
  have b: "split_index 100 (PyFloat (Fin d029)) = Inr 28"
    by (simp add: split_index_def py_float_def mul_100_d029_float)
  have c: "max 1 \<lfloor>real 10 * d07\<rfloor> = 6"
    by (simp add: d07_def)
  show ?thesis
    using a b c by simp
qed

text \<open>
  Claim C4, as the code computes it. For rows sorted by date (fewer than \<open>2 ^ 52\<close> of
  them), \<open>time_series_split\<close> with a test size \<open>t\<close> in \<open>[0, 1)\<close> returns the first
  \<open>\<lfloor>fl (n * fl (1 - t))\<rfloor>\<close> rows and the remaining rows, and the train/validation
  split with a fraction \<open>f\<close> in \<open>(0, 1]\<close> returns the first
  \<open>max 1 \<lfloor>fl (n * f)\<rfloor>\<close> rows and the remaining rows: floors of binary64 products, not
  ceilings. Cutting the rows at any index is exhaustive, and no row before the cut has a
  later date than a row after it; it has an earlier date when the dates are distinct.
\<close>

theorem splits_chronological:
  assumes "0 \<le> t" "t < 1" "0 < f" "f \<le> 1" "length df < 2 ^ 52" "sorted (map key df)"
  shows "time_series_split df (Fin t)
           = Inr (take (nat \<lfloor>fl (real (length df) * fl (1 - t))\<rfloor>) df,
                  drop (nat \<lfloor>fl (real (length df) * fl (1 - t))\<rfloor>) df)
    \<and> (df \<noteq> [] \<longrightarrow>
          train_val_split df (PyFloat (Fin f))
            = Inr (take (nat (max 1 \<lfloor>fl (real (length df) * f)\<rfloor>)) df,
                   if max 1 \<lfloor>fl (real (length df) * f)\<rfloor> < int (length df)
                   then Some (drop (nat (max 1 \<lfloor>fl (real (length df) * f)\<rfloor>)) df)
                   else None))
    \<and> (\<forall>k. take k df @ drop k df = df
            \<and> length (take k df) + length (drop k df) = length df
            \<and> (\<forall>a \<in> set (take k df). \<forall>b \<in> set (drop k df).
                  key a \<le> key b \<and> (distinct (map key df) \<longrightarrow> key a < key b)))"
proof (intro conjI impI allI)
  note o = one_minus_test_size [OF assms(1,2)]
  have n: "length df < 2 ^ 53" using assms(5) by simp
  note p = split_index_fraction [OF o(2,3) n]
  show "time_series_split df (Fin t)
           = Inr (take (nat \<lfloor>fl (real (length df) * fl (1 - t))\<rfloor>) df,
                  drop (nat \<lfloor>fl (real (length df) * fl (1 - t))\<rfloor>) df)"
    using p by (simp add: time_series_split_def o(1) Let_def iloc_to_def iloc_from_def)
next
  assume "df \<noteq> []"
  from train_val_split_float [OF this assms(3,4,5)]
  show "train_val_split df (PyFloat (Fin f))
            = Inr (take (nat (max 1 \<lfloor>fl (real (length df) * f)\<rfloor>)) df,
                   if max 1 \<lfloor>fl (real (length df) * f)\<rfloor> < int (length df)
                   then Some (drop (nat (max 1 \<lfloor>fl (real (length df) * f)\<rfloor>)) df)
                   else None)"
    by blast
next
  fix k show "take k df @ drop k df = df" by simp
next
  fix k show "length (take k df) + length (drop k df) = length df"
    by (simp add: min_def)
next
  fix k show "\<forall>a \<in> set (take k df). \<forall>b \<in> set (drop k df).
                  key a \<le> key b \<and> (distinct (map key df) \<longrightarrow> key a < key b)"
    by (rule take_drop_chronological [OF assms(6)])
qed

lemma fl_half: "fl (1 / 2) = 1 / 2"
  by (subst fl_at_exponent [of "- 1"])
     (simp_all add: round_half_even_def power_int_minus_divide)

lemma fl_three_halves: "fl (3 / 2) = 3 / 2"
  by (subst fl_at_exponent [of 0])
     (simp_all add: round_half_even_def power_int_minus_divide)

text \<open>
  Three sorted rows, the test size 1/2 and the fraction 1/2: one row is trained on, two
  are left.
\<close>

theorem splits_chronological_witness:
  "(0::real) \<le> 1 / 2 \<and> (1::real) / 2 < 1 \<and> (0::real) < 1 / 2 \<and> (1::real) / 2 \<le> 1
   \<and> length [1, 2, 3 :: nat] < 2 ^ 52 \<and> sorted (map (\<lambda>x. x) [1, 2, 3 :: nat])
   \<and> time_series_split [1, 2, 3 :: nat] (Fin (1 / 2)) = Inr ([1], [2, 3])
   \<and> train_val_split [1, 2, 3 :: nat] (PyFloat (Fin (1 / 2))) = Inr ([1], Some [2, 3])"
  using splits_chronological [of "1 / 2" "1 / 2" "[1, 2, 3 :: nat]" "\<lambda>x. x"]
  by (simp add: fl_half fl_three_halves)

lemma to_float_half: "to_float (1 / 2) = Fin (1 / 2)"
  by (simp add: to_float_def fl_half)

lemma to_float_three_halves: "to_float (3 / 2) = Fin (3 / 2)"
  by (simp add: to_float_def fl_three_halves)

text \<open>
  Claim C4 as stated fails on three rows at one half, where \<open>ceil(n * f)\<close> is 2 and one
  row is trained on; and on two rows of the same date, which are sorted and are split,
  where the training row does not precede the other in time.
\<close>

theorem split_ceiling_counterexample:
  "time_series_split [1, 2, 3 :: nat] (Fin (1 / 2)) = Inr ([1], [2, 3])
   \<and> train_val_split [1, 2, 3 :: nat] (PyFloat (Fin (1 / 2))) = Inr ([1], Some [2, 3])
   \<and> \<lceil>real (length [1, 2, 3 :: nat]) * (1 / 2)\<rceil> = 2
   \<and> sorted (map fst [(1 :: nat, ''a''), (1, ''b'')])
   \<and> time_series_split [(1 :: nat, ''a''), (1, ''b'')] (Fin (1 / 2))
       = Inr ([(1, ''a'')], [(1, ''b'')])
   \<and> \<not> fst (1 :: nat, ''a'') < fst (1 :: nat, ''b'')"
  by (simp add: time_series_split_def train_val_split_def split_index_def py_float_def
      np_sub_def to_float_half to_float_three_halves iloc_to_def iloc_from_def)

text \<open>
  The rounding decides in \<open>time_series_split\<close> too. With ten rows and the test size
  0.9, \<open>1 - 0.9\<close> is just below 0.1 and the product just below 1: no row is trained
  on. With five rows and the test size 0.2, \<open>1 - 0.2\<close> rounds to 0.8 and the product
  to 4.0: four rows are trained on, where the exact product is below 4.
\<close>

lemma to_float_one_minus_d09: "to_float (900719925474099 / 9007199254740992) = Fin (900719925474099 / 9007199254740992)"
  by (subst to_float_at [of "- 4"])
     (simp_all add: round_half_even_def power_int_minus_divide)

lemma to_float_10_times_d09c: "to_float (4503599627370495 / 4503599627370496) = Fin (4503599627370495 / 4503599627370496)"
  by (subst to_float_at [of "- 1"])
     (simp_all add: round_half_even_def power_int_minus_divide)

lemma to_float_one_minus_d02: "to_float (14411518807585587 / 18014398509481984) = Fin (3602879701896397 / 4503599627370496)"
  by (subst to_float_at [of "- 1"])
     (simp_all add: round_half_even_def power_int_minus_divide)

lemma to_float_5_times_d08: "to_float (18014398509481985 / 4503599627370496) = Fin (4)"
  by (subst to_float_at [of "2"])
     (simp_all add: round_half_even_def power_int_minus_divide)

lemma time_series_split_rounding:
  "time_series_split [1 ..< 11] (Fin d09) = Inr ([], [1 ..< 11])
   \<and> time_series_split [1 ..< 6] (Fin d02) = Inr ([1, 2, 3, 4], [5])
   \<and> \<lfloor>real 5 * (1 - d02)\<rfloor> = 3"
  by (simp add: time_series_split_def py_float_def np_sub_def d09_def d02_def iloc_to_def
      iloc_from_def to_float_one_minus_d09 to_float_10_times_d09c to_float_one_minus_d02
      to_float_5_times_d08 upt_rec)

section \<open>The guard on a zero standard deviation\<close>

text \<open>
  The statistics of the constant column \<open>[0.1, 0.1, 0.1]\<close> as pandas computes them:
  the sum \<open>0.1 + 0.1 + 0.1\<close> rounds up, the mean is the next float above 0.1, and the
  standard deviation is \<open>2 powi (- 56)\<close>, not 0.
\<close>

lemma to_float_d01: "to_float (3602879701896397 / 36028797018963968) = Fin (3602879701896397 / 36028797018963968)"
  by (subst to_float_at [of "- 4"])
     (simp_all add: round_half_even_def power_int_minus_divide)

lemma to_float_d01_twice: "to_float (3602879701896397 / 18014398509481984) = Fin (3602879701896397 / 18014398509481984)"
  by (subst to_float_at [of "- 3"])
     (simp_all add: round_half_even_def power_int_minus_divide)

lemma to_float_d01_thrice: "to_float (10808639105689191 / 36028797018963968) = Fin (1351079888211149 / 4503599627370496)"
  by (subst to_float_at [of "- 2"])
     (simp_all add: round_half_even_def power_int_minus_divide)

lemma to_float_d01_mean: "to_float (1351079888211149 / 13510798882111488) = Fin (7205759403792795 / 72057594037927936)"
  by (subst to_float_at [of "- 4"])
     (simp_all add: round_half_even_def power_int_minus_divide)

lemma to_float_d01_dev: "to_float (1 / 72057594037927936) = Fin (1 / 72057594037927936)"
  by (subst to_float_at [of "- 56"])
     (simp_all add: round_half_even_def power_int_minus_divide)

lemma to_float_d01_neg_dev: "to_float (- (1 / 72057594037927936)) = Fin (- (1 / 72057594037927936))"
  by (subst to_float_at [of "- 56"])
     (simp_all add: round_half_even_def power_int_minus_divide)

lemma to_float_d01_sq: "to_float (1 / 5192296858534827628530496329220096) = Fin (1 / 5192296858534827628530496329220096)"
  by (subst to_float_at [of "- 112"])
     (simp_all add: round_half_even_def power_int_minus_divide)

lemma to_float_d01_sq_twice: "to_float (1 / 2596148429267413814265248164610048) = Fin (1 / 2596148429267413814265248164610048)"
  by (subst to_float_at [of "- 111"])
     (simp_all add: round_half_even_def power_int_minus_divide)

lemma to_float_d01_sq_thrice: "to_float (3 / 5192296858534827628530496329220096) = Fin (3 / 5192296858534827628530496329220096)"
  by (subst to_float_at [of "- 111"])
     (simp_all add: round_half_even_def power_int_minus_divide)

lemmas d01_floats = to_float_d01 to_float_d01_twice to_float_d01_thrice to_float_d01_mean
  to_float_d01_dev to_float_d01_neg_dev to_float_d01_sq to_float_d01_sq_twice
  to_float_d01_sq_thrice

lemma sqrt_d01_var: "sqrt (1 / 5192296858534827628530496329220096) = 1 / 72057594037927936"
  by (rule real_sqrt_unique) (simp_all add: power2_eq_square)

lemma seq_mean_d01:
  "seq_mean (map Fin [d01, d01, d01]) = Fin (7205759403792795 / 72057594037927936)"
  by (simp add: seq_mean_def seq_sum_def d01_def py_float_def d01_floats)

lemma seq_std0_d01: "seq_std0 [d01, d01, d01] = Fin (1 / 72057594037927936)"
  unfolding seq_std0_def seq_mean_d01
  by (simp add: seq_sum_def d01_def py_float_def np_sub_def d01_floats sqrt_d01_var)

lemma to_float_neg_1: "to_float (- 1) = Fin (- 1)"
  using to_float_of_int [of "- 1"] by simp

lemma standardize_d01:
  "standardize [d01, d01, d01] (Fin (7205759403792795 / 72057594037927936))
     (Fin (1 / 72057594037927936)) = [Fin (- 1), Fin (- 1), Fin (- 1)]"
  by (simp add: standardize_def d01_def np_sub_def d01_floats to_float_neg_1)

lemma map2_update_y_ds:
  "length vs = length xs \<Longrightarrow> map ds (map2 (\<lambda>r v. r\<lparr>y_val := v\<rparr>) xs vs) = map ds xs"
  by (induction xs vs rule: list_induct2') simp_all

lemma map2_update_y_income:
  "length vs = length xs
    \<Longrightarrow> map Income_Total (map2 (\<lambda>r v. r\<lparr>y_val := v\<rparr>) xs vs) = map Income_Total xs"
  by (induction xs vs rule: list_induct2') simp_all

lemma map2_update_y_val:
  "length vs = length xs \<Longrightarrow> map y_val (map2 (\<lambda>r v. r\<lparr>y_val := v\<rparr>) xs vs) = vs"
  by (induction xs vs rule: list_induct2') simp_all

lemma length_standardize [simp]: "length (standardize incomes mu sigma) = length incomes"
  by (simp add: standardize_def)

lemma float_or_1_nonzero: "float_or_1 v \<noteq> Fin 0"
  by (cases v) (simp_all add: float_or_1_def)

text \<open>What \<open>standardized_feats\<close> returns, and that it returns the same on its own result.\<close>

lemma standardized_feats_Inr:
  assumes "standardized_feats lib feats0 = Inr (feats, (mu, sigma))"
  shows "has_column feats0 ''Income_Total''"
    and "mu = series_mean lib (map Income_Total (sort_key ds (rows feats0)))"
    and "sigma = float_or_1 (series_std0 lib (map Income_Total (sort_key ds (rows feats0))))"
    and "feats = add_y_column (feats0\<lparr>rows := sort_key ds (rows feats0)\<rparr>) mu sigma"
  using assms
  by (auto simp: standardized_feats_def Let_def mu_sigma_def has_column_def split: if_splits)

lemma standardized_feats_rows:
  assumes "standardized_feats lib feats0 = Inr (feats, (mu, sigma))"
  shows "map ds (rows feats) = map ds (sort_key ds (rows feats0))"
    and "map Income_Total (rows feats) = map Income_Total (sort_key ds (rows feats0))"
    and "has_column feats ''Income_Total''" and "has_column feats ''y''"
proof -
  note a = standardized_feats_Inr [OF assms]
  define srt where "srt = sort_key ds (rows feats0)"
  define vs where "vs = standardize (map Income_Total srt) mu sigma"
  have len: "length vs = length srt"
    by (simp add: vs_def)
  have f: "feats = (if has_column feats0 ''y'' then feats0\<lparr>rows := srt\<rparr>
      else \<lparr>columns = columns feats0 @ [(''y'', Numeric)],
            rows = map2 (\<lambda>r v. r\<lparr>y_val := v\<rparr>) srt vs\<rparr>)"
    unfolding a(4) add_y_column_def srt_def vs_def has_column_def by simp
  show "map ds (rows feats) = map ds (sort_key ds (rows feats0))"
    unfolding f srt_def [symmetric]
    by (simp add: map2_update_y_ds [OF len] del: map_map)
  show "map Income_Total (rows feats) = map Income_Total (sort_key ds (rows feats0))"
    unfolding f srt_def [symmetric]
    by (simp add: map2_update_y_income [OF len] del: map_map)
  show "has_column feats ''Income_Total''"
    using a(1) unfolding f by (simp add: has_column_def)
  show "has_column feats ''y''"
    unfolding f by (simp add: has_column_def)
qed

lemma standardized_feats_idem:
  assumes "standardized_feats lib feats0 = Inr (feats, (mu, sigma))"
  shows "standardized_feats lib feats = Inr (feats, (mu, sigma))"
proof -
  note a = standardized_feats_Inr [OF assms] and b = standardized_feats_rows [OF assms]
  have "sorted (map ds (rows feats))"
    unfolding b(1) by simp
  then have s: "sort_key ds (rows feats) = rows feats"
    by (rule sort_key_id_if_sorted)
  show ?thesis
    using a(2,3) b(3,4)
    by (simp add: standardized_feats_def Let_def s b(2) mu_sigma_def add_y_column_def)
qed

lemma standardized_feats_y:
  assumes "standardized_feats lib feats0 = Inr (feats, (mu, sigma))"
  shows "has_column feats0 ''y'' \<Longrightarrow> feats = feats0\<lparr>rows := sort_key ds (rows feats0)\<rparr>"
    and "\<not> has_column feats0 ''y'' \<Longrightarrow> map y_val (rows feats)
           = map (\<lambda>r. np_div (np_sub (Fin (Income_Total r)) mu) sigma)
               (sort_key ds (rows feats0))"
proof -
  note a = standardized_feats_Inr [OF assms]
  show "has_column feats0 ''y'' \<Longrightarrow> feats = feats0\<lparr>rows := sort_key ds (rows feats0)\<rparr>"
    unfolding a(4) add_y_column_def by (simp add: has_column_def)
  assume n: "\<not> has_column feats0 ''y''"
  define srt where "srt = sort_key ds (rows feats0)"
  define vs where "vs = standardize (map Income_Total srt) mu sigma"
  have len: "length vs = length srt"
    by (simp add: vs_def)
  have f: "rows feats = map2 (\<lambda>r v. r\<lparr>y_val := v\<rparr>) srt vs"
    using n unfolding a(4) add_y_column_def srt_def vs_def has_column_def by simp
  have "map y_val (rows feats) = vs"
    unfolding f by (rule map2_update_y_val [OF len])
  also have "vs = map (\<lambda>r. np_div (np_sub (Fin (Income_Total r)) mu) sigma) srt"
    by (simp add: vs_def standardize_def comp_def)
  finally show "map y_val (rows feats)
           = map (\<lambda>r. np_div (np_sub (Fin (Income_Total r)) mu) sigma)
               (sort_key ds (rows feats0))"
    unfolding srt_def .
qed

lemma train_prophet_standardized:
  assumes "standardized_feats lib feats0 = Inr (feats, (mu, sigma))"
  shows "train_prophet lib files userId feats0 train_frac
       = train_prophet lib files userId feats train_frac"
  unfolding train_prophet_def assms standardized_feats_idem [OF assms] by (rule refl)

lemma retrain_prophet_standardized:
  assumes "standardized_feats lib feats0 = Inr (feats, (mu, sigma))"
  shows "retrain_prophet lib files userId feats0 train_frac
       = retrain_prophet lib files userId feats train_frac"
  unfolding retrain_prophet_def assms standardized_feats_idem [OF assms] by (rule refl)

lemma main_train_prophet_standardized:
  assumes "standardized_feats lib feats0 = Inr (feats, (mu, sigma))"
  shows "main_train_prophet lib feats0 train_frac = main_train_prophet lib feats train_frac"
  unfolding main_train_prophet_def assms standardized_feats_idem [OF assms] by (rule refl)

text \<open>
  Claim C5, as the code computes it. When the first lines of \<open>train_prophet\<close>,
  \<open>retrain_prophet\<close> and \<open>_train_prophet\<close> return the frame and \<open>(mu, sigma)\<close>:
  \<open>sigma\<close> is \<open>float(std) or 1.0\<close> of the computed standard deviation, so it is
  never 0; it is 1 when the computed value is exactly 0, and the computed value
  otherwise, however small. A frame that has a \<open>y\<close> column is only sorted, and nothing
  is divided; a frame without one gets the targets \<open>(Income_Total - mu) / sigma\<close>. Each
  of the three functions continues from that frame: it returns on the input what it
  returns on the frame with these targets.
\<close>

theorem sigma_zero_guard:
  fixes lib :: "'p lib"
  assumes "standardized_feats lib feats0 = Inr (feats, (mu, sigma))"
  shows "sigma = float_or_1 (series_std0 lib (map Income_Total (sort_key ds (rows feats0))))
    \<and> sigma \<noteq> Fin 0
    \<and> (series_std0 lib (map Income_Total (sort_key ds (rows feats0))) = Fin 0
          \<longrightarrow> sigma = Fin 1)
    \<and> (series_std0 lib (map Income_Total (sort_key ds (rows feats0))) \<noteq> Fin 0
          \<longrightarrow> sigma = series_std0 lib (map Income_Total (sort_key ds (rows feats0))))
    \<and> (has_column feats0 ''y''
          \<longrightarrow> feats = feats0\<lparr>rows := sort_key ds (rows feats0)\<rparr>)
    \<and> (\<not> has_column feats0 ''y''
          \<longrightarrow> map y_val (rows feats)
              = map (\<lambda>r. np_div (np_sub (Fin (Income_Total r)) mu) sigma)
                  (sort_key ds (rows feats0)))
    \<and> train_prophet lib files userId feats0 train_frac
        = train_prophet lib files userId feats train_frac
    \<and> retrain_prophet lib files userId feats0 train_frac
        = retrain_prophet lib files userId feats train_frac
    \<and> main_train_prophet lib feats0 train_frac = main_train_prophet lib feats train_frac"
proof -
  note a = standardized_feats_Inr [OF assms]
  have g: "series_std0 lib (map Income_Total (sort_key ds (rows feats0))) = Fin 0
          \<longrightarrow> sigma = Fin 1"
    unfolding a(3) by (simp add: float_or_1_def)
  have h: "series_std0 lib (map Income_Total (sort_key ds (rows feats0))) \<noteq> Fin 0
          \<longrightarrow> sigma = series_std0 lib (map Income_Total (sort_key ds (rows feats0)))"
    unfolding a(3) by (simp add: float_or_1_def split: npfloat.splits)
  have z: "sigma \<noteq> Fin 0"
    unfolding a(3) by (rule float_or_1_nonzero)
  show ?thesis
    using a(3) z g h standardized_feats_y [OF assms]
      train_prophet_standardized [OF assms] retrain_prophet_standardized [OF assms]
      main_train_prophet_standardized [OF assms]
    by blast
qed

text \<open>The constant column \<open>[100, 100]\<close>: the computed standard deviation is exactly 0.\<close>

lemma seq_std0_100: "seq_std0 [100, 100] = Fin 0"
  by (simp add: seq_std0_def seq_mean_def seq_sum_def py_float_def np_sub_def)

lemma seq_mean_100: "seq_mean (map Fin [100, 100]) = Fin 100"
  by (simp add: seq_mean_def seq_sum_def py_float_def)

lemma standardized_feats_two_days_const:
  "standardized_feats ok_lib two_days_const
     = Inr (\<lparr>columns = [(''ds'', Datetime), (''Income_Total'', Numeric), (''y'', Numeric)],
             rows = [\<lparr>ds = 1, Income_Total = 100, y_val = Fin 0, covariates = (\<lambda>c. None)\<rparr>,
                     \<lparr>ds = 2, Income_Total = 100, y_val = Fin 0, covariates = (\<lambda>c. None)\<rparr>]\<rparr>,
            (Fin 100, Fin 1))"
  by (simp add: standardized_feats_def two_days_const_def has_column_def mu_sigma_def ok_lib_def
      seq_std0_100 seq_mean_100 [simplified] float_or_1_def add_y_column_def standardize_def
      np_sub_def)

text \<open>
  Two days of the income 100 and no \<open>y\<close> column: the computed standard deviation is
  0, \<open>sigma\<close> is 1 and both targets are 0.
\<close>

theorem sigma_zero_guard_witness:
  "standardized_feats ok_lib two_days_const
     = Inr (\<lparr>columns = [(''ds'', Datetime), (''Income_Total'', Numeric), (''y'', Numeric)],
             rows = [\<lparr>ds = 1, Income_Total = 100, y_val = Fin 0, covariates = (\<lambda>c. None)\<rparr>,
                     \<lparr>ds = 2, Income_Total = 100, y_val = Fin 0, covariates = (\<lambda>c. None)\<rparr>]\<rparr>,
            (Fin 100, Fin 1))
   \<and> series_std0 ok_lib (map Income_Total (sort_key ds (rows two_days_const))) = Fin 0
   \<and> Fin 1 = float_or_1 (series_std0 ok_lib
                 (map Income_Total (sort_key ds (rows two_days_const))))
   \<and> \<not> has_column two_days_const ''y''
   \<and> main_train_prophet ok_lib two_days_const (PyFloat (Fin 1))
       = main_train_prophet ok_lib
           \<lparr>columns = [(''ds'', Datetime), (''Income_Total'', Numeric), (''y'', Numeric)],
             rows = [\<lparr>ds = 1, Income_Total = 100, y_val = Fin 0, covariates = (\<lambda>c. None)\<rparr>,
                     \<lparr>ds = 2, Income_Total = 100, y_val = Fin 0, covariates = (\<lambda>c. None)\<rparr>]\<rparr>
           (PyFloat (Fin 1))"
proof -
  have s: "series_std0 ok_lib (map Income_Total (sort_key ds (rows two_days_const))) = Fin 0"
    by (simp add: two_days_const_def ok_lib_def seq_std0_100)
  have y: "\<not> has_column two_days_const ''y''"
    by (simp add: two_days_const_def has_column_def)
  show ?thesis
    using sigma_zero_guard [OF standardized_feats_two_days_const,
        where train_frac = "PyFloat (Fin 1)"] s y standardized_feats_two_days_const
    by (simp add: float_or_1_def)
qed

text \<open>
  Claim C5 as stated fails twice. On three days of the income 0.1 the computed standard
  deviation is \<open>2 powi (- 56)\<close>: near zero, not zero, so it is the divisor and every
  target is \<open>-1\<close>. And \<open>extract_features\<close> has no guard: on the constant column
  \<open>[100, 100, 100]\<close> it divides zero by zero and every target is \<open>nan\<close>.
\<close>

theorem sigma_guard_counterexample:
  "standardized_feats ok_lib three_days_const
     = Inr (\<lparr>columns = [(''ds'', Datetime), (''Income_Total'', Numeric), (''y'', Numeric)],
             rows = [\<lparr>ds = 1, Income_Total = d01, y_val = Fin (- 1), covariates = (\<lambda>c. None)\<rparr>,
                     \<lparr>ds = 2, Income_Total = d01, y_val = Fin (- 1), covariates = (\<lambda>c. None)\<rparr>,
                     \<lparr>ds = 3, Income_Total = d01, y_val = Fin (- 1), covariates = (\<lambda>c. None)\<rparr>]\<rparr>,
            (Fin (7205759403792795 / 72057594037927936), Fin (1 / 72057594037927936)))
   \<and> extract_features ok_lib [100, 100, 100] = [NaN, NaN, NaN]"
proof -
  have a: "standardized_feats ok_lib three_days_const
     = Inr (\<lparr>columns = [(''ds'', Datetime), (''Income_Total'', Numeric), (''y'', Numeric)],
             rows = [\<lparr>ds = 1, Income_Total = d01, y_val = Fin (- 1), covariates = (\<lambda>c. None)\<rparr>,
                     \<lparr>ds = 2, Income_Total = d01, y_val = Fin (- 1), covariates = (\<lambda>c. None)\<rparr>,
                     \<lparr>ds = 3, Income_Total = d01, y_val = Fin (- 1), covariates = (\<lambda>c. None)\<rparr>]\<rparr>,
            (Fin (7205759403792795 / 72057594037927936), Fin (1 / 72057594037927936)))"
    by (simp add: standardized_feats_def three_days_const_def has_column_def mu_sigma_def
        ok_lib_def seq_std0_d01 seq_mean_d01 [simplified] float_or_1_def add_y_column_def
        standardize_d01)
  have b: "extract_features ok_lib [100, 100, 100] = [NaN, NaN, NaN]"
    by (simp add: extract_features_def ok_lib_def seq_std0_def seq_mean_def seq_sum_def
        py_float_def np_sub_def standardize_def)
  show ?thesis
    using a b by simp
qed

section \<open>R-squared on the validation partition\<close>

text \<open>
  Claim C6, as the expression computes it. When the computed sum of squares about the
  mean is 0 and the computed sum of squared residuals is \<open>r\<close>, the division does not
  raise and \<open>val_r2\<close> is \<open>nan\<close> for \<open>r = 0\<close> and \<open>-inf\<close> for \<open>r > 0\<close>; it is no finite
  number. It is stored under the key \<open>val_r2\<close> like any score, and the endpoint's
  \<open>round(..., 4)\<close> passes it on unchanged.
\<close>

theorem val_r2_zero_variance:
  fixes lib :: "'p lib"
  assumes "np_sum lib (map (\<lambda>a. np_mul (np_sub a (np_mean lib val_y_actual))
                                   (np_sub a (np_mean lib val_y_actual))) val_y_actual) = Fin 0"
    and "np_sum lib (map (\<lambda>d. np_mul d d) (map2 np_sub val_y_actual val_y_pred)) = Fin r"
  shows "val_r2 lib val_y_actual val_y_pred = (if r = 0 then NaN else if 0 < r then NInf else PInf)
    \<and> val_r2 lib val_y_actual val_y_pred \<notin> range Fin
    \<and> map_of (validation_metrics lib val_y_actual val_y_pred) ''val_r2''
        = Some (val_r2 lib val_y_actual val_y_pred)
    \<and> accuracy_validation (map_of (validation_metrics lib val_y_actual val_y_pred))
        = Some (py_round4 (val_mae lib val_y_actual val_y_pred),
                py_round4 (val_rmse lib val_y_actual val_y_pred),
                val_r2 lib val_y_actual val_y_pred)"
proof -
  have v: "val_r2 lib val_y_actual val_y_pred
      = (if r = 0 then NaN else if 0 < r then NInf else PInf)"
    unfolding val_r2_def assms by (simp add: np_sub_def)
  have m: "map_of (validation_metrics lib val_y_actual val_y_pred) ''val_r2''
        = Some (val_r2 lib val_y_actual val_y_pred)"
    by (simp add: validation_metrics_def)
  have r: "py_round4 (val_r2 lib val_y_actual val_y_pred) = val_r2 lib val_y_actual val_y_pred"
    unfolding v by simp
  have a: "accuracy_validation (map_of (validation_metrics lib val_y_actual val_y_pred))
        = Some (py_round4 (val_mae lib val_y_actual val_y_pred),
                py_round4 (val_rmse lib val_y_actual val_y_pred),
                val_r2 lib val_y_actual val_y_pred)"
    by (simp add: accuracy_validation_def validation_metrics_def metrics_get_def r dom_def)
  have f: "val_r2 lib val_y_actual val_y_pred \<notin> range Fin"
    unfolding v by auto
  show ?thesis
    using v f m a by simp
qed

text \<open>The target \<open>[1, 1]\<close>: its computed sum of squares about the mean is 0.\<close>

lemma ss_tot_ones:
  "np_sum ok_lib (map (\<lambda>a. np_mul (np_sub a (np_mean ok_lib [Fin 1, Fin 1]))
                               (np_sub a (np_mean ok_lib [Fin 1, Fin 1]))) [Fin 1, Fin 1]) = Fin 0"
  by (simp add: ok_lib_def seq_sum_def seq_mean_def py_float_def np_sub_def)

lemma ss_res_ones_one_two:
  "np_sum ok_lib (map (\<lambda>d. np_mul d d) (map2 np_sub [Fin 1, Fin 1] [Fin 1, Fin 2])) = Fin 1"
  by (simp add: ok_lib_def seq_sum_def np_sub_def to_float_neg_1)

lemma ss_res_ones_ones:
  "np_sum ok_lib (map (\<lambda>d. np_mul d d) (map2 np_sub [Fin 1, Fin 1] [Fin 1, Fin 1])) = Fin 0"
  by (simp add: ok_lib_def seq_sum_def np_sub_def)

text \<open>Two rows with the target 1 and the predictions 1 and 2: the entry is \<open>-inf\<close>.\<close>

theorem val_r2_zero_variance_witness:
  "np_sum ok_lib (map (\<lambda>a. np_mul (np_sub a (np_mean ok_lib [Fin 1, Fin 1]))
                               (np_sub a (np_mean ok_lib [Fin 1, Fin 1]))) [Fin 1, Fin 1]) = Fin 0
   \<and> np_sum ok_lib (map (\<lambda>d. np_mul d d) (map2 np_sub [Fin 1, Fin 1] [Fin 1, Fin 2])) = Fin 1
   \<and> val_r2 ok_lib [Fin 1, Fin 1] [Fin 1, Fin 2] = NInf
   \<and> map_of (validation_metrics ok_lib [Fin 1, Fin 1] [Fin 1, Fin 2]) ''val_r2'' = Some NInf"
  using val_r2_zero_variance [OF ss_tot_ones ss_res_ones_one_two] ss_tot_ones ss_res_ones_one_two
  by simp

text \<open>
  Claim C6 as stated fails. On the target \<open>[1, 1]\<close> with the predictions \<open>[1, 1]\<close> the
  value is \<open>nan\<close>, stored under \<open>val_r2\<close> and reported as a score. On the constant
  target \<open>[0.1, 0.1, 0.1]\<close> the computed mean is not 0.1, the sum of squares about it
  is positive, and with the predictions equal to the target the value is the finite
  number 1.
\<close>

theorem val_r2_counterexample:
  "val_r2 ok_lib [Fin 1, Fin 1] [Fin 1, Fin 1] = NaN
   \<and> map_of (validation_metrics ok_lib [Fin 1, Fin 1] [Fin 1, Fin 1]) ''val_r2'' = Some NaN
   \<and> (\<exists>mae rmse. accuracy_validation
          (map_of (validation_metrics ok_lib [Fin 1, Fin 1] [Fin 1, Fin 1]))
        = Some (mae, rmse, NaN))
   \<and> val_r2 ok_lib [Fin d01, Fin d01, Fin d01] [Fin d01, Fin d01, Fin d01] = Fin 1"
proof -
  have v: "val_r2 ok_lib [Fin 1, Fin 1] [Fin 1, Fin 1] = NaN"
    unfolding val_r2_def ss_tot_ones ss_res_ones_ones by (simp add: np_sub_def)
  have m: "map_of (validation_metrics ok_lib [Fin 1, Fin 1] [Fin 1, Fin 1]) ''val_r2'' = Some NaN"
    by (simp add: validation_metrics_def v)
  have a: "\<exists>mae rmse. accuracy_validation
          (map_of (validation_metrics ok_lib [Fin 1, Fin 1] [Fin 1, Fin 1]))
        = Some (mae, rmse, NaN)"
    by (simp add: accuracy_validation_def validation_metrics_def metrics_get_def v dom_def)
  have d: "val_r2 ok_lib [Fin d01, Fin d01, Fin d01] [Fin d01, Fin d01, Fin d01] = Fin 1"
    unfolding val_r2_def
    by (simp add: ok_lib_def seq_mean_d01 [simplified, unfolded d01_def] seq_sum_def np_sub_def
        d01_def d01_floats)
  show ?thesis
    using v m a d by simp
qed

section \<open>The validation branch\<close>

text \<open>The steps of \<open>_train_prophet\<close> on the frame of four days.\<close>

lemma sorted_sort_key_ds_four: "sort_key ds (rows four_days) = rows four_days"
  by (simp add: four_days_def)

lemma standardized_feats_four_days:
  "standardized_feats ok_lib four_days
     = Inr (four_days, mu_sigma ok_lib (map Income_Total (rows four_days)))"
  unfolding standardized_feats_def Let_def sorted_sort_key_ds_four
  by (simp add: four_days_def has_column_def add_y_column_def)

lemma train_val_split_four_days_half:
  "train_val_split (rows four_days) (PyFloat (Fin (1 / 2)))
     = Inr (take 2 (rows four_days), Some (drop 2 (rows four_days)))"
  by (simp add: train_val_split_def split_index_def py_float_def four_days_def
      iloc_to_def iloc_from_def)

lemma train_val_split_four_days_one:
  "train_val_split (rows four_days) (PyInt 1) = Inr (rows four_days, None)"
  by (simp add: train_val_split_def split_index_def four_days_def iloc_to_def)

lemma feat_names_four_days:
  "get_feature_pipeline (columns four_days)
     = (([''Job_Categories''], [''Income_Total'']), [''Job_Categories'', ''Income_Total''])"
  by (simp add: get_feature_pipeline_def four_days_def Let_def)

lemma safe_four_days:
  "safe_feature_names [''Job_Categories'', ''Income_Total''] = [''Job_Categories'', ''Income_Total'']"
  by (simp add: safe_feature_names_def)

lemma not_reserved_four_days:
  "\<not> prophet_reserved ok_lib ''Job_Categories''" "\<not> prophet_reserved ok_lib ''Income_Total''"
  by (simp_all add: ok_lib_def prophet_reserved_names_def)

lemma add_regressors_four_days:
  "add_regressors ok_lib Prophet [''Job_Categories'', ''Income_Total'']
     = Inr \<lparr>extra_regressors = [''Job_Categories'', ''Income_Total''], params = None\<rparr>"
  by (simp add: add_regressor_def not_reserved_four_days Prophet_def)

lemma main_train_prophet_four_days_half:
  "main_train_prophet ok_lib four_days (PyFloat (Fin (1 / 2))) = Inl UnboundLocalError"
  apply (simp only: main_train_prophet_def standardized_feats_four_days sum.case prod.case
      train_val_split_four_days_half feat_names_four_days fst_conv snd_conv Let_def
      safe_four_days add_regressors_four_days)
  apply (simp add: ok_lib_def four_days_def read_local_def)
  done

lemma main_train_prophet_four_days_full:
  "main_train_prophet ok_lib four_days (PyInt 1)
     = Inr (map_of [(''accuracy'', Fin 1), (''train_mae'', Fin 0), (''train_rmse'', Fin 0),
                    (''train_r2'', Fin 1)])"
  apply (simp only: main_train_prophet_def standardized_feats_four_days sum.case prod.case
      train_val_split_four_days_one feat_names_four_days fst_conv snd_conv Let_def
      safe_four_days add_regressors_four_days)
  apply (simp add: ok_lib_def four_days_def np_round_def round_half_even_def)
  done

text \<open>
  Whatever the libraries do, a call of \<open>_train_prophet\<close> that returns has the four
  training scores only: with a validation partition it raises, at the latest where it
  reads \<open>safe_regressors\<close>. So the endpoint never reports validation scores.
\<close>

lemma main_train_prophet_validation_raises:
  fixes lib :: "'p lib"
  assumes "main_train_prophet lib feats0 train_frac = Inr metrics"
  shows "dom metrics = {''accuracy'', ''train_mae'', ''train_rmse'', ''train_r2''}"
  using assms unfolding main_train_prophet_def Let_def read_local_def
  by (auto split: sum.splits prod.splits option.splits if_splits)

lemma train_endpoint_no_validation:
  fixes lib :: "'p lib"
  assumes "train_endpoint lib feats = Inr v"
  shows "v = None"
proof -
  obtain metrics where m: "main_train_prophet lib feats (PyInt 1) = Inr metrics"
    and v: "v = accuracy_validation metrics"
    using assms by (auto simp: train_endpoint_def split: sum.splits)
  have "''val_mae'' \<notin> dom metrics"
    unfolding main_train_prophet_validation_raises [OF m] by simp
  then show ?thesis
    unfolding v accuracy_validation_def by simp
qed

text \<open>
  Claim C7. main.py does not compile as it is. Its \<open>_train_prophet\<close>, on the frame of
  four days with the training fraction 0.5, trains on two rows, which the fit accepts,
  keeps two rows for validation and raises \<open>UnboundLocalError\<close> where the validation
  branch reads \<open>safe_regressors\<close>: no validation score is computed. With
  \<open>train_frac=1\<close> no row is kept, the metrics have the four training scores, and the
  endpoint reports \<open>None\<close> for the validation.
\<close>

theorem validation_branch_unbound_local:
  "py_compile main_py_defs = Inl IndentationError
   \<and> train_val_split (rows four_days) (PyFloat (Fin (1 / 2)))
       = Inr (take 2 (rows four_days), Some (drop 2 (rows four_days)))
   \<and> length (take 2 (rows four_days)) = 2 \<and> length (drop 2 (rows four_days)) = 2
   \<and> main_train_prophet ok_lib four_days (PyFloat (Fin (1 / 2))) = Inl UnboundLocalError
   \<and> main_train_prophet ok_lib four_days (PyInt 1)
       = Inr (map_of [(''accuracy'', Fin 1), (''train_mae'', Fin 0), (''train_rmse'', Fin 0),
                      (''train_r2'', Fin 1)])
   \<and> train_endpoint ok_lib four_days = Inr None"
proof -
  have c: "py_compile main_py_defs = Inl IndentationError"
    by (simp add: py_compile_def main_py_defs_def)
  have l: "length (take 2 (rows four_days)) = 2 \<and> length (drop 2 (rows four_days)) = 2"
    by (simp add: four_days_def)
  have e: "train_endpoint ok_lib four_days = Inr None"
    by (simp add: train_endpoint_def main_train_prophet_four_days_full accuracy_validation_def
        dom_def)
  show ?thesis
    using c l e train_val_split_four_days_half main_train_prophet_four_days_half
      main_train_prophet_four_days_full
    by simp
qed

section \<open>Regressors and reserved columns\<close>

lemma set_safe_feature_names:
  "set (safe_feature_names fns) = set fns - {''ds'', ''y'', ''cap'', ''floor''}"
  by (auto simp: safe_feature_names_def)

lemma set_get_feature_pipeline:
  "set (snd (get_feature_pipeline cols)) = set (map fst cols) - {''ds'', ''y''}"
  by (auto simp: get_feature_pipeline_def Let_def)

lemma set_dict_keys [simp]: "set (dict_keys ks) = set ks"
proof (induction ks rule: dict_keys.induct)
  case 1
  show ?case by simp
next
  case (2 k ks)
  then show ?case by auto
qed

lemma dict_keys_ds_y_safe:
  "dict_keys ([''ds'', ''y''] @ safe_feature_names fns)
     = ''ds'' # ''y'' # dict_keys (safe_feature_names fns)"
proof -
  have "[x \<leftarrow> safe_feature_names fns. x \<noteq> ''ds''] = safe_feature_names fns"
    by (rule filter_True) (simp add: set_safe_feature_names)
  moreover have "[x \<leftarrow> safe_feature_names fns. x \<noteq> ''y''] = safe_feature_names fns"
    by (rule filter_True) (simp add: set_safe_feature_names)
  ultimately show ?thesis by simp
qed

lemma dict_keys_ds_safe:
  "dict_keys (''ds'' # safe_feature_names fns) = ''ds'' # dict_keys (safe_feature_names fns)"
proof -
  have "[x \<leftarrow> safe_feature_names fns. x \<noteq> ''ds''] = safe_feature_names fns"
    by (rule filter_True) (simp add: set_safe_feature_names)
  then show ?thesis by simp
qed

text \<open>
  The loop over \<open>add_regressor\<close>: when it returns, every name was accepted by the
  library and is attached; it returns exactly when the library reserves none of them.
\<close>

lemma add_regressors_set:
  fixes lib :: "'p lib"
  assumes "add_regressors lib m names = Inr m'"
  shows "set (extra_regressors m') = set (extra_regressors m) \<union> set names
    \<and> params m' = params m \<and> (\<forall>name \<in> set names. \<not> prophet_reserved lib name)"
  using assms
proof (induction names arbitrary: m)
  case Nil
  then show ?case by simp
next
  case (Cons name names)
  from Cons.prems obtain m1 where a: "add_regressor lib m name = Inr m1"
    and r: "add_regressors lib m1 names = Inr m'"
    by (auto split: sum.splits)
  from a have n: "\<not> prophet_reserved lib name"
    and m1: "set (extra_regressors m1) = insert name (set (extra_regressors m))"
      "params m1 = params m"
    by (auto simp: add_regressor_def split: if_splits)
  from Cons.IH [OF r] show ?case
    using n m1 by auto
qed

lemma add_regressors_reserved:
  fixes lib :: "'p lib"
  assumes "\<forall>name \<in> set names. \<not> prophet_reserved lib name"
  shows "\<exists>m'. add_regressors lib m names = Inr m'"
  using assms
proof (induction names arbitrary: m)
  case Nil
  show ?case by simp
next
  case (Cons name names)
  then show ?case by (simp add: add_regressor_def)
qed

text \<open>
  A call of \<open>fit_prophet\<close> or of \<open>_train_prophet\<close> that returns has attached the safe
  names to a new model and fitted it on a frame of the columns \<open>ds\<close>, \<open>y\<close> and the safe
  names.
\<close>

lemma fit_prophet_Inr:
  fixes lib :: "'p lib"
  assumes "fit_prophet lib train_df regressor_df feature_names prev_Model = Inr m"
  shows "\<exists>m0 p. add_regressors lib Prophet (safe_feature_names feature_names) = Inr m0
    \<and> prophet_fit lib m0 (''ds'' # ''y'' # dict_keys (safe_feature_names feature_names))
          train_df regressor_df
          (case prev_Model of None \<Rightarrow> None
           | Some prev \<Rightarrow> (case warm_start_params lib prev of Inl e \<Rightarrow> None | Inr i \<Rightarrow> Some i))
        = Inr p
    \<and> m = m0\<lparr>params := Some p\<rparr>"
  using assms unfolding fit_prophet_def Let_def dict_keys_ds_y_safe
  by (auto split: sum.splits option.splits)

lemma main_train_prophet_Inr:
  fixes lib :: "'p lib"
  assumes "main_train_prophet lib feats0 train_frac = Inr metrics"
  shows "\<exists>feats ms train_df val_df reg_train_df m0 p.
      standardized_feats lib feats0 = Inr (feats, ms)
    \<and> train_val_split (rows feats) train_frac = Inr (train_df, val_df)
    \<and> pipe_transform lib (fst (get_feature_pipeline (columns feats))) train_df train_df
        = Inr reg_train_df
    \<and> add_regressors lib Prophet (safe_feature_names (snd (get_feature_pipeline (columns feats))))
        = Inr m0
    \<and> prophet_fit lib m0
          (''ds'' # ''y'' # dict_keys (safe_feature_names (snd (get_feature_pipeline (columns feats)))))
          train_df reg_train_df None = Inr p"
  using assms unfolding main_train_prophet_def Let_def dict_keys_ds_y_safe
  by (auto split: sum.splits prod.splits)

text \<open>
  Claim C8. The names that \<open>fit_prophet\<close>, \<open>infer_prophet\<close> and \<open>_train_prophet\<close>
  keep are the feature names without \<open>ds\<close>, \<open>y\<close>, \<open>cap\<close> and \<open>floor\<close>; from the
  columns of a frame, they are the columns without these four. A model that
  \<open>fit_prophet\<close> returns has exactly these names as its regressors, and it is the new
  model with them attached, fitted by the library on the frame of the columns \<open>ds\<close>,
  \<open>y\<close> and these names. \<open>infer_prophet\<close>, once the model is read, is the library's
  prediction on the frame of the columns \<open>ds\<close> and these names. A call of
  \<open>_train_prophet\<close> that returns has attached exactly the columns without the four
  to the model it fitted, on a frame of \<open>ds\<close>, \<open>y\<close> and these columns.
\<close>

theorem reserved_columns_excluded:
  fixes lib :: "'p lib"
  shows "set (safe_feature_names feature_names) = set feature_names - {''ds'', ''y'', ''cap'', ''floor''}
    \<and> set (safe_feature_names (snd (get_feature_pipeline cols)))
        = set (map fst cols) - {''ds'', ''y'', ''cap'', ''floor''}
    \<and> (\<forall>m. fit_prophet lib train_df regressor_df feature_names prev_Model = Inr m \<longrightarrow>
          set (extra_regressors m) = set feature_names - {''ds'', ''y'', ''cap'', ''floor''}
          \<and> (\<exists>m0 p. add_regressors lib Prophet (safe_feature_names feature_names) = Inr m0
                \<and> prophet_fit lib m0
                      (''ds'' # ''y'' # dict_keys (safe_feature_names feature_names))
                      train_df regressor_df
                      (case prev_Model of None \<Rightarrow> None
                       | Some prev \<Rightarrow> (case warm_start_params lib prev of
                                        Inl e \<Rightarrow> None | Inr i \<Rightarrow> Some i))
                    = Inr p
                \<and> m = m0\<lparr>params := Some p\<rparr>))
    \<and> (\<forall>json m. open_read files model_path = Inr json \<and> model_from_json lib json = Inr m \<longrightarrow>
          infer_prophet lib files model_path df regressor_df feature_names
            = prophet_predict lib m (''ds'' # dict_keys (safe_feature_names feature_names))
                df regressor_df)
    \<and> set (dict_keys (safe_feature_names feature_names))
        = set feature_names - {''ds'', ''y'', ''cap'', ''floor''}
    \<and> (\<forall>metrics. main_train_prophet lib feats_in train_frac = Inr metrics \<longrightarrow>
          (\<exists>feats ms train val reg_train_df m0 p.
              standardized_feats lib feats_in = Inr (feats, ms)
            \<and> train_val_split (rows feats) train_frac = Inr (train, val)
            \<and> pipe_transform lib (fst (get_feature_pipeline (columns feats))) train train
                = Inr reg_train_df
            \<and> add_regressors lib Prophet
                  (safe_feature_names (snd (get_feature_pipeline (columns feats)))) = Inr m0
            \<and> set (extra_regressors m0)
                = set (map fst (columns feats)) - {''ds'', ''y'', ''cap'', ''floor''}
            \<and> prophet_fit lib m0
                  (''ds'' # ''y''
                   # dict_keys (safe_feature_names (snd (get_feature_pipeline (columns feats)))))
                  train reg_train_df None = Inr p))"
proof (intro conjI allI impI)
  show "set (safe_feature_names feature_names)
      = set feature_names - {''ds'', ''y'', ''cap'', ''floor''}"
    by (rule set_safe_feature_names)
  show c: "set (safe_feature_names (snd (get_feature_pipeline cols)))
        = set (map fst cols) - {''ds'', ''y'', ''cap'', ''floor''}" for cols
    unfolding set_safe_feature_names set_get_feature_pipeline by auto
  show "set (dict_keys (safe_feature_names feature_names))
        = set feature_names - {''ds'', ''y'', ''cap'', ''floor''}"
    by (simp add: set_safe_feature_names)
next
  fix m
  assume a: "fit_prophet lib train_df regressor_df feature_names prev_Model = Inr m"
  from fit_prophet_Inr [OF a] obtain m0 p
    where m0: "add_regressors lib Prophet (safe_feature_names feature_names) = Inr m0"
      and p: "prophet_fit lib m0 (''ds'' # ''y'' # dict_keys (safe_feature_names feature_names))
                train_df regressor_df
                (case prev_Model of None \<Rightarrow> None
                 | Some prev \<Rightarrow> (case warm_start_params lib prev of
                                  Inl e \<Rightarrow> None | Inr i \<Rightarrow> Some i)) = Inr p"
      and m: "m = m0\<lparr>params := Some p\<rparr>"
    by blast
  show "set (extra_regressors m) = set feature_names - {''ds'', ''y'', ''cap'', ''floor''}"
    using add_regressors_set [OF m0] by (simp add: m Prophet_def set_safe_feature_names)
  show "\<exists>m0 p. add_regressors lib Prophet (safe_feature_names feature_names) = Inr m0
                \<and> prophet_fit lib m0
                      (''ds'' # ''y'' # dict_keys (safe_feature_names feature_names))
                      train_df regressor_df
                      (case prev_Model of None \<Rightarrow> None
                       | Some prev \<Rightarrow> (case warm_start_params lib prev of
                                        Inl e \<Rightarrow> None | Inr i \<Rightarrow> Some i))
                    = Inr p
                \<and> m = m0\<lparr>params := Some p\<rparr>"
    using m0 p m by blast
next
  fix json m
  assume "open_read files model_path = Inr json \<and> model_from_json lib json = Inr m"
  then show "infer_prophet lib files model_path df regressor_df feature_names
            = prophet_predict lib m (''ds'' # dict_keys (safe_feature_names feature_names))
                df regressor_df"
    unfolding infer_prophet_def Let_def dict_keys_ds_safe by simp
next
  fix metrics
  assume a: "main_train_prophet lib feats_in train_frac = Inr metrics"
  from main_train_prophet_Inr [OF a] obtain feats ms train val reg_train_df m0 p
    where s: "standardized_feats lib feats_in = Inr (feats, ms)"
      "train_val_split (rows feats) train_frac = Inr (train, val)"
      "pipe_transform lib (fst (get_feature_pipeline (columns feats))) train train
                = Inr reg_train_df"
      and m0: "add_regressors lib Prophet
                  (safe_feature_names (snd (get_feature_pipeline (columns feats)))) = Inr m0"
      and p: "prophet_fit lib m0
                  (''ds'' # ''y''
                   # dict_keys (safe_feature_names (snd (get_feature_pipeline (columns feats)))))
                  train reg_train_df None = Inr p"
    by blast
  have e: "set (extra_regressors m0)
                = set (map fst (columns feats)) - {''ds'', ''y'', ''cap'', ''floor''}"
    using add_regressors_set [OF m0]
    unfolding set_safe_feature_names set_get_feature_pipeline
    by (auto simp: Prophet_def)
  show "\<exists>feats ms train val reg_train_df m0 p.
              standardized_feats lib feats_in = Inr (feats, ms)
            \<and> train_val_split (rows feats) train_frac = Inr (train, val)
            \<and> pipe_transform lib (fst (get_feature_pipeline (columns feats))) train train
                = Inr reg_train_df
            \<and> add_regressors lib Prophet
                  (safe_feature_names (snd (get_feature_pipeline (columns feats)))) = Inr m0
            \<and> set (extra_regressors m0)
                = set (map fst (columns feats)) - {''ds'', ''y'', ''cap'', ''floor''}
            \<and> prophet_fit lib m0
                  (''ds'' # ''y''
                   # dict_keys (safe_feature_names (snd (get_feature_pipeline (columns feats)))))
                  train reg_train_df None = Inr p"
    using s m0 e p by blast
qed

text \<open>The frame with the columns \<open>cap\<close> and \<open>floor\<close>, step by step.\<close>

lemma feat_names_capped_days:
  "get_feature_pipeline (columns capped_days)
     = (([''Job_Categories''], [''Income_Total'', ''cap'', ''floor'']),
        [''Job_Categories'', ''Income_Total'', ''cap'', ''floor''])"
  by (simp add: get_feature_pipeline_def capped_days_def Let_def)

lemma safe_capped_days:
  "safe_feature_names [''Job_Categories'', ''Income_Total'', ''cap'', ''floor'']
     = [''Job_Categories'', ''Income_Total'']"
  by (simp add: safe_feature_names_def)

lemma fit_prophet_capped_days:
  "fit_prophet ok_lib (rows capped_days) (rows capped_days)
       [''Job_Categories'', ''Income_Total'', ''cap'', ''floor''] None
     = Inr \<lparr>extra_regressors = [''Job_Categories'', ''Income_Total''], params = Some ()\<rparr>"
  apply (simp only: fit_prophet_def Let_def safe_capped_days add_regressors_four_days sum.case
      option.case)
  apply (simp add: ok_lib_def capped_days_def)
  done

lemma infer_prophet_capped_days:
  "infer_prophet ok_lib [''m.json'' \<mapsto> ''{}''] ''m.json'' (rows capped_days) (rows capped_days)
       [''Job_Categories'', ''Income_Total'', ''cap'', ''floor'']
     = Inr [Fin 0, Fin 0]"
  by (simp add: infer_prophet_def open_read_def ok_lib_def capped_days_def)

lemma sort_key_ds_capped: "sort_key ds (rows capped_days) = rows capped_days"
  by (simp add: capped_days_def)

lemma standardized_feats_capped_days:
  "standardized_feats ok_lib capped_days
     = Inr (capped_days, mu_sigma ok_lib (map Income_Total (rows capped_days)))"
  unfolding standardized_feats_def Let_def sort_key_ds_capped
  by (simp add: capped_days_def has_column_def add_y_column_def)

lemma train_val_split_capped_days:
  "train_val_split (rows capped_days) (PyInt 1) = Inr (rows capped_days, None)"
  by (simp add: train_val_split_def split_index_def capped_days_def iloc_to_def)

lemma main_train_prophet_capped_days:
  "main_train_prophet ok_lib capped_days (PyInt 1)
     = Inr (map_of [(''accuracy'', Fin 1), (''train_mae'', Fin 0), (''train_rmse'', Fin 0),
                    (''train_r2'', Fin 1)])"
  apply (simp only: main_train_prophet_def standardized_feats_capped_days sum.case prod.case
      train_val_split_capped_days feat_names_capped_days fst_conv snd_conv Let_def
      safe_capped_days add_regressors_four_days)
  apply (simp add: ok_lib_def capped_days_def np_round_def round_half_even_def)
  done

text \<open>
  On the frame with the columns \<open>cap\<close> and \<open>floor\<close>: the feature names have both, the
  fit returns a model with the two other names as its regressors, the prediction is made
  on \<open>ds\<close> and these two, and \<open>_train_prophet\<close> returns.
\<close>

theorem reserved_columns_excluded_witness:
  "snd (get_feature_pipeline (columns capped_days))
     = [''Job_Categories'', ''Income_Total'', ''cap'', ''floor'']
   \<and> fit_prophet ok_lib (rows capped_days) (rows capped_days)
       [''Job_Categories'', ''Income_Total'', ''cap'', ''floor''] None
       = Inr \<lparr>extra_regressors = [''Job_Categories'', ''Income_Total''], params = Some ()\<rparr>
   \<and> set (extra_regressors
            \<lparr>extra_regressors = [''Job_Categories'', ''Income_Total''], params = Some ()\<rparr>)
       = set [''Job_Categories'', ''Income_Total'', ''cap'', ''floor'']
         - {''ds'', ''y'', ''cap'', ''floor''}
   \<and> open_read [''m.json'' \<mapsto> ''{}''] ''m.json'' = Inr ''{}''
   \<and> model_from_json ok_lib ''{}'' = Inr Prophet
   \<and> infer_prophet ok_lib [''m.json'' \<mapsto> ''{}''] ''m.json'' (rows capped_days)
         (rows capped_days) [''Job_Categories'', ''Income_Total'', ''cap'', ''floor'']
       = prophet_predict ok_lib Prophet [''ds'', ''Job_Categories'', ''Income_Total'']
           (rows capped_days) (rows capped_days)
   \<and> main_train_prophet ok_lib capped_days (PyInt 1)
       = Inr (map_of [(''accuracy'', Fin 1), (''train_mae'', Fin 0), (''train_rmse'', Fin 0),
                      (''train_r2'', Fin 1)])"
proof -
  have o: "open_read [''m.json'' \<mapsto> ''{}''] ''m.json'' = Inr ''{}''"
    by (simp add: open_read_def)
  have j: "model_from_json ok_lib ''{}'' = Inr Prophet"
    by (simp add: ok_lib_def)
  have d: "dict_keys (safe_feature_names [''Job_Categories'', ''Income_Total'', ''cap'', ''floor''])
      = [''Job_Categories'', ''Income_Total'']"
    by (simp add: safe_capped_days)
  note t = reserved_columns_excluded [where lib = ok_lib
      and feature_names = "[''Job_Categories'', ''Income_Total'', ''cap'', ''floor'']"
      and train_df = "rows capped_days" and regressor_df = "rows capped_days"
      and prev_Model = None and files = "[''m.json'' \<mapsto> ''{}'']" and model_path = "''m.json''"
      and df = "rows capped_days" and feats_in = capped_days and train_frac = "PyInt 1"]
  note t3 = t [THEN conjunct2, THEN conjunct2, THEN conjunct1, rule_format,
      OF fit_prophet_capped_days, THEN conjunct1]
  note t4 = t [THEN conjunct2, THEN conjunct2, THEN conjunct2, THEN conjunct1, rule_format,
      OF conjI [OF o j], unfolded d]
  show ?thesis
    unfolding feat_names_capped_days snd_conv
    using t3 t4 o j fit_prophet_capped_days main_train_prophet_capped_days
    by (intro conjI) (rule refl, assumption+)
qed

section \<open>The inverse transform\<close>

lemma to_float_d07_times_10: "to_float (15762598695796735 / 2251799813685248) = Fin (7)"
  by (subst to_float_at [of "2"])
     (simp_all add: round_half_even_def power_int_minus_divide)

lemma round_half_even_numeral [simp]: "round_half_even (numeral n) = numeral n"
  using round_half_even_of_int [of "numeral n"] by simp

text \<open>
  Claim C9. On an \<open>np.ndarray\<close>, the type its signature declares,
  \<open>income_from_standardized\<close> raises \<open>TypeError\<close>, whatever the values: the builtin
  \<open>round\<close> finds no \<open>__round__\<close>. On a pandas Series it returns: the prediction 0.5
  with \<open>mu = 1000\<close> and \<open>sigma = 100\<close> gives 1050. There the rounding is of the float
  \<open>y * sigma + mu\<close>: for the prediction 0.7 with \<open>mu = 8\<close> and \<open>sigma = 10\<close> that float
  is 15.0 and the result is 20, where the multiple of ten nearest to the exact value is
  10.
\<close>

theorem income_from_standardized_ndarray:
  "income_from_standardized (NdArray pred_y) mu sigma = Inl TypeError
   \<and> income_from_standardized (NdArray [Fin (1 / 2)]) (Fin 1000) (Fin 100) = Inl TypeError
   \<and> income_from_standardized (Series [Fin (1 / 2)]) (Fin 1000) (Fin 100) = Inr (Series [Fin 1050])
   \<and> income_from_standardized (Series [Fin d07]) (Fin 8) (Fin 10) = Inr (Series [Fin 20])
   \<and> 10 * round_half_even ((d07 * 10 + 8) / 10) = 10"
proof -
  have a: "income_from_standardized (Series [Fin (1 / 2)]) (Fin 1000) (Fin 100)
      = Inr (Series [Fin 1050])"
    by (simp add: np_round_def)
  have b: "income_from_standardized (Series [Fin d07]) (Fin 8) (Fin 10) = Inr (Series [Fin 20])"
    by (simp add: np_round_def d07_def to_float_d07_times_10 to_float_three_halves
        round_half_even_def)
  have c: "10 * round_half_even ((d07 * 10 + 8) / 10) = 10"
    by (simp add: d07_def round_half_even_def)
  show ?thesis
    using a b c by simp
qed

section \<open>The standardization round trip\<close>

text \<open>
  Where the computed mean is the constant of the column and the computed standard
  deviation is 0, \<open>extract_features\<close> divides zero by zero in every row.
\<close>

lemma extract_features_zero_sigma:
  fixes lib :: "'p lib"
  assumes "series_mean lib incomes = Fin c" "series_std0 lib incomes = Fin 0"
    "\<forall>x \<in> set incomes. x = c"
  shows "extract_features lib incomes = map (\<lambda>x. NaN) incomes"
  using assms(3)
  by (simp add: extract_features_def assms(1,2) standardize_def np_sub_def)

text \<open>
  Claim C1, at a constant income column. On \<open>[100, 100]\<close> the computed mean is 100 and
  the computed standard deviation is 0; \<open>extract_features\<close> divides by it, so every
  target is \<open>nan\<close>, and the inverse transform of these targets with the same \<open>mu\<close> and
  \<open>sigma\<close> returns \<open>nan\<close>, not the income 100.
\<close>

theorem extract_features_constant_income:
  "extract_features ok_lib [100, 100] = [NaN, NaN]
   \<and> series_mean ok_lib [100, 100] = Fin 100 \<and> series_std0 ok_lib [100, 100] = Fin 0
   \<and> income_from_standardized (Series (extract_features ok_lib [100, 100]))
         (series_mean ok_lib [100, 100]) (series_std0 ok_lib [100, 100])
       = Inr (Series [NaN, NaN])"
proof -
  have m: "series_mean ok_lib [100, 100] = Fin 100"
    by (simp add: ok_lib_def seq_mean_100 [simplified])
  have s: "series_std0 ok_lib [100, 100] = Fin 0"
    by (simp add: ok_lib_def seq_std0_100)
  have e: "extract_features ok_lib [100, 100] = [NaN, NaN]"
    by (simp add: extract_features_def m s standardize_def np_sub_def)
  show ?thesis
    unfolding e m s by (simp add: np_round_def)
qed

section \<open>Batch training\<close>

lemma batch_loop_success:
  assumes "\<forall>(v, q) \<in> set user_data. \<not> isl (body v q)"
  shows "batch_loop body user_data results tracked
     = (tracked @ map (\<lambda>(v, q). (v, None)) user_data,
        Inr (results ++ map_of (rev (map (\<lambda>(v, q). (v, projr (body v q))) user_data))))"
  using assms
proof (induction user_data arbitrary: results tracked)
  case Nil
  then show ?case by simp
next
  case (Cons x rest)
  obtain u p where x: "x = (u, p)" by (cases x)
  from Cons.prems x obtain r where r: "body u p = Inr r"
    by (cases "body u p") auto
  have rest: "\<forall>(v, q) \<in> set rest. \<not> isl (body v q)"
    using Cons.prems by simp
  have "batch_loop body (x # rest) results tracked
      = batch_loop body rest (results(u \<mapsto> r)) (tracked @ [(u, None)])"
    by (simp add: x r train_model_def)
  also have "\<dots> = ((tracked @ [(u, None)]) @ map (\<lambda>(v, q). (v, None)) rest,
        Inr (results(u \<mapsto> r)
             ++ map_of (rev (map (\<lambda>(v, q). (v, projr (body v q))) rest))))"
    by (rule Cons.IH [OF rest])
  also have "results(u \<mapsto> r) ++ map_of (rev (map (\<lambda>(v, q). (v, projr (body v q))) rest))
      = results ++ map_of (rev (map (\<lambda>(v, q). (v, projr (body v q))) (x # rest)))"
    by (simp add: x r map_add_assoc [symmetric])
  finally show ?case
    by (simp add: x)
qed

lemma batch_loop_failure:
  assumes "\<forall>(v, q) \<in> set pre. \<not> isl (body v q)" "body u p = Inl e"
  shows "batch_loop body (pre @ (u, p) # post) results tracked
     = (tracked @ map (\<lambda>(v, q). (v, None)) pre @ [(u, Some e)], Inl e)"
  using assms
proof (induction pre arbitrary: results tracked)
  case Nil
  then show ?case by (simp add: train_model_def)
next
  case (Cons x rest)
  obtain v q where x: "x = (v, q)" by (cases x)
  from Cons.prems x obtain r where r: "body v q = Inr r"
    by (cases "body v q") auto
  have rest: "\<forall>(v, q) \<in> set rest. \<not> isl (body v q)"
    using Cons.prems by simp
  have "batch_loop body ((x # rest) @ (u, p) # post) results tracked
      = batch_loop body (rest @ (u, p) # post) (results(v \<mapsto> r)) (tracked @ [(v, None)])"
    by (simp add: x r train_model_def)
  also have "\<dots> = ((tracked @ [(v, None)]) @ map (\<lambda>(v, q). (v, None)) rest @ [(u, Some e)],
        Inl e)"
    by (rule Cons.IH [OF rest Cons.prems(2)])
  finally show ?case
    by (simp add: x)
qed

text \<open>
  Claim C3, as the loop runs. When the training of every user in the mapping succeeds,
  the batch returns the dict of their results, one run per user. When the users \<open>pre\<close>
  succeed and the next user \<open>u\<close> fails with \<open>e\<close>, that error is logged to the run of
  \<open>u\<close> and raised out of the batch: no dict is returned, and no run is started for the
  users \<open>post\<close> after \<open>u\<close>.
\<close>

theorem batch_train_models_outcome:
  "((\<forall>(v, q) \<in> set user_data. \<not> isl (body v q)) \<longrightarrow>
      batch_train_models body user_data tracked
        = (tracked @ map (\<lambda>(v, q). (v, None)) user_data,
           Inr (map_of (rev (map (\<lambda>(v, q). (v, projr (body v q))) user_data)))))
   \<and> ((\<forall>(v, q) \<in> set pre. \<not> isl (body v q)) \<and> body u p = Inl e \<longrightarrow>
      batch_train_models body (pre @ (u, p) # post) tracked
        = (tracked @ map (\<lambda>(v, q). (v, None)) pre @ [(u, Some e)], Inl e))"
  using batch_loop_success [of user_data body Map.empty tracked]
    batch_loop_failure [of pre body u p e post Map.empty tracked]
  by (simp add: batch_train_models_def)

text \<open>
  Both cases, with a training that fails on \<open>path_b\<close> only: users 1 and 3 alone are
  both trained; with user 2 between them the batch ends at user 2.
\<close>

theorem batch_train_models_outcome_witness:
  "batch_train_models (\<lambda>u p. if p = ''path_b'' then Inl ValueError else Inr (u, p))
      [(1, ''path_a''), (3, ''path_c'')] []
     = ([(1, None), (3, None)], Inr [1 \<mapsto> (1, ''path_a''), 3 \<mapsto> (3, ''path_c'')])
   \<and> batch_train_models (\<lambda>u p. if p = ''path_b'' then Inl ValueError else Inr (u, p))
      ([(1, ''path_a'')] @ (2, ''path_b'') # [(3, ''path_c'')]) []
     = ([(1, None), (2, Some ValueError)], Inl ValueError)"
  using batch_train_models_outcome [of "[(1, ''path_a''), (3, ''path_c'')]"
      "\<lambda>u p. if p = ''path_b'' then Inl ValueError else Inr (u, p)" "[]"
      "[(1, ''path_a'')]" 2 "''path_b''" ValueError "[(3, ''path_c'')]"]
  by simp

text \<open>
  Claim C3 as stated fails on the mapping \<open>{1: path_a, 2: path_b, 3: path_c}\<close> when
  \<open>path_b\<close> raises: the batch raises that error, returns no result for user 1 and no
  failure record for user 2, and user 3 is never trained.
\<close>

theorem batch_abort_counterexample:
  "batch_train_models (\<lambda>u p. if p = ''path_b'' then Inl ValueError else Inr (u, p))
      [(1, ''path_a''), (2, ''path_b''), (3, ''path_c'')] []
     = ([(1, None), (2, Some ValueError)], Inl ValueError)"
  by (simp add: batch_train_models_def train_model_def)

section \<open>Saving and loading the artifact\<close>

lemma artifact_paths_differ: "modelUser_path userId \<noteq> model_user_path userId'"
  by (simp add: modelUser_path_def model_user_path_def)

lemma str_int_42: "str_int 42 = ''42''"
  by (simp add: str_int_def str_nat.simps)

lemma train_prophet_store:
  "fst (train_prophet lib files userId feats train_frac) = files
   \<or> fst (train_prophet lib files userId feats train_frac) = files(modelUser_path userId \<mapsto> [])"
  by (simp add: train_prophet_def Let_def open_wb_write_str_def split: sum.splits prod.splits)

text \<open>\<open>train_prophet\<close> never returns: if nothing raises before, the write does.\<close>

lemma train_prophet_raises: "isl (snd (train_prophet lib files userId feats train_frac))"
  by (simp add: train_prophet_def Let_def open_wb_write_str_def split: sum.splits prod.splits)

text \<open>
  After \<open>train_prophet\<close> for a user on an empty store, \<open>retrain_prophet\<close> for the same
  user finds no artifact, whatever the library does.
\<close>

lemma retrain_after_train_not_found:
  "retrain_prophet lib (fst (train_prophet lib Map.empty userId feats train_frac)) userId feats'
     train_frac' = Inl FileNotFoundError"
  using train_prophet_store [of lib Map.empty userId feats train_frac]
    artifact_paths_differ [of userId userId]
  by (auto simp: retrain_prophet_def open_read_def)

text \<open>The steps of \<open>train_prophet\<close> on the frame of two days.\<close>

lemma sort_key_ds_two_days: "sort_key ds (rows two_days) = rows two_days"
  by (simp add: two_days_def)

lemma standardized_feats_two_days:
  "standardized_feats ok_lib two_days
     = Inr (two_days, mu_sigma ok_lib (map Income_Total (rows two_days)))"
  unfolding standardized_feats_def Let_def sort_key_ds_two_days
  by (simp add: two_days_def has_column_def add_y_column_def)

lemma train_val_split_two_days:
  "train_val_split (rows two_days) (PyFloat (Fin 1)) = Inr (rows two_days, None)"
  by (simp add: train_val_split_def split_index_def py_float_def two_days_def iloc_to_def)

lemma feat_names_two_days:
  "get_feature_pipeline (columns two_days)
     = (([''Job_Categories''], [''Income_Total'']), [''Job_Categories'', ''Income_Total''])"
  by (simp add: get_feature_pipeline_def two_days_def Let_def)

lemma fit_prophet_two_days:
  "fit_prophet ok_lib (rows two_days) (rows two_days) [''Job_Categories'', ''Income_Total''] None
     = Inr \<lparr>extra_regressors = [''Job_Categories'', ''Income_Total''], params = Some ()\<rparr>"
  apply (simp only: fit_prophet_def Let_def safe_four_days add_regressors_four_days sum.case
      option.case)
  apply (simp add: ok_lib_def two_days_def)
  done

lemma pipe_transform_ok_lib: "pipe_transform ok_lib pipe fitted df = Inr df"
  by (simp add: ok_lib_def)

lemma train_prophet_two_days:
  "train_prophet ok_lib Map.empty 42 two_days (PyFloat (Fin 1))
       = ([''../models/artifacts/modelUser_42.json'' \<mapsto> []], Inl TypeError)"
  apply (simp only: train_prophet_def standardized_feats_two_days sum.case prod.case
      train_val_split_two_days feat_names_two_days fst_conv snd_conv Let_def)
  apply (simp add: pipe_transform_ok_lib)
  apply (simp add: fit_prophet_two_days open_wb_write_str_def modelUser_path_def str_int_42)
  done

text \<open>
  Claim C2, for user 42 on an empty store. Loading raises \<open>FileNotFoundError\<close>. Then
  \<open>train_prophet\<close> fits, creates \<open>modelUser_42.json\<close> empty and raises \<open>TypeError\<close>
  on the write; and \<open>retrain_prophet\<close> for user 42 on the store it leaves reads
  \<open>model_user_42.json\<close> and raises \<open>FileNotFoundError\<close> again.
\<close>

theorem artifact_not_reloaded:
  "open_read Map.empty (model_user_path 42) = Inl FileNotFoundError
   \<and> modelUser_path 42 = ''../models/artifacts/modelUser_42.json''
   \<and> model_user_path 42 = ''../models/artifacts/model_user_42.json''
   \<and> train_prophet ok_lib Map.empty 42 two_days (PyFloat (Fin 1))
       = ([''../models/artifacts/modelUser_42.json'' \<mapsto> []], Inl TypeError)
   \<and> retrain_prophet ok_lib [''../models/artifacts/modelUser_42.json'' \<mapsto> []] 42 two_days
         (PyFloat (Fin 1))
       = Inl FileNotFoundError"
  using train_prophet_two_days
  by (simp add: open_read_def modelUser_path_def model_user_path_def str_int_42
      retrain_prophet_def)

end
